theory Spec2Isabelle
  imports Main "HOL-Library.AList"
begin

section \<open>JavaScript strings\<close>

text \<open>
  Source text, parameter tokens and names are strings of 8-bit code units, read as the
  Latin-1 range of JavaScript's UTF-16 code units. \<open>is_space\<close> is the class \<open>\s\<close> of
  a regular expression, which is also the set that \<open>String.prototype.trim\<close> strips:
  TAB, LF, VT, FF, CR, SPACE and NBSP in this range. \<open>is_word\<close> is the class \<open>\w\<close>.
\<close>

definition is_space :: "char \<Rightarrow> bool" where
  "is_space c = (c = CHR 0x09 \<or> c = CHR 0x0A \<or> c = CHR 0x0B \<or> c = CHR 0x0C \<or> c = CHR 0x0D
                 \<or> c = CHR 0x20 \<or> c = CHR 0xA0)"

definition in_range :: "char \<Rightarrow> char \<Rightarrow> char \<Rightarrow> bool" where
  "in_range lo hi c = ((of_char lo :: nat) \<le> of_char c \<and> (of_char c :: nat) \<le> of_char hi)"

definition is_digit :: "char \<Rightarrow> bool" where
  "is_digit c = in_range (CHR ''0'') (CHR ''9'') c"

definition is_word :: "char \<Rightarrow> bool" where
  "is_word c = (in_range (CHR ''a'') (CHR ''z'') c \<or> in_range (CHR ''A'') (CHR ''Z'') c
                \<or> is_digit c \<or> c = CHR ''_'')"

text \<open>\<open>s.trim()\<close>\<close>

definition trim :: "string \<Rightarrow> string" where
  "trim s = rev (dropWhile is_space (rev (dropWhile is_space s)))"

text \<open>\<open>s.split(sep)\<close> for a separator of one character: at least one piece, always.\<close>

fun split_on :: "char \<Rightarrow> string \<Rightarrow> string list" where
  "split_on sep [] = [[]]"
| "split_on sep (c # cs) =
     (if c = sep then [] # split_on sep cs
      else (case split_on sep cs of
              [] \<Rightarrow> [[c]]
            | p # ps \<Rightarrow> (c # p) # ps))"

text \<open>\<open>s.startsWith(p)\<close> and \<open>s.includes(p)\<close>\<close>

fun startsWith :: "string \<Rightarrow> string \<Rightarrow> bool" where
  "startsWith s [] = True"
| "startsWith [] (p # ps) = False"
| "startsWith (c # cs) (p # ps) = (c = p \<and> startsWith cs ps)"

fun includes_str :: "string \<Rightarrow> string \<Rightarrow> bool" where
  "includes_str [] p = (p = [])"
| "includes_str (c # cs) p = (startsWith (c # cs) p \<or> includes_str cs p)"

text \<open>
  \<open>s.toLowerCase()\<close>: in the Latin-1 range the letters A-Z and the accented capitals
  0xC0-0xDE (the multiplication sign 0xD7 apart) move up by 32.
\<close>

definition lower_char :: "char \<Rightarrow> char" where
  "lower_char c =
     (if in_range (CHR ''A'') (CHR ''Z'') c \<or> (in_range (CHR 0xC0) (CHR 0xDE) c \<and> c \<noteq> CHR 0xD7)
      then char_of (of_char c + (32 :: nat)) else c)"

definition toLowerCase :: "string \<Rightarrow> string" where
  "toLowerCase s = map lower_char s"

text \<open>Array index \<open>xs[i]\<close>: \<open>undefined\<close> out of range, here \<open>None\<close>.\<close>

fun at_index :: "'a list \<Rightarrow> nat \<Rightarrow> 'a option" where
  "at_index [] i = None"
| "at_index (x # xs) 0 = Some x"
| "at_index (x # xs) (Suc i) = at_index xs i"

text \<open>Decimal rendering of a natural number, as a template literal renders it.\<close>

definition digit_char :: "nat \<Rightarrow> char" where
  "digit_char d = char_of (48 + d)"

fun decimal :: "nat \<Rightarrow> string" where
  "decimal n = (if n < 10 then [digit_char n] else decimal (n div 10) @ [digit_char (n mod 10)])"

declare decimal.simps [simp del]

subsection \<open>\<open>Number(s)\<close> on a string: is the result a number or NaN?\<close>

text \<open>
  \<open>Number\<close> applied to a string follows the grammar StringNumericLiteral of the language:
  surrounding white space is dropped; the empty text is 0; \<open>0x\<close>, \<open>0o\<close> and \<open>0b\<close>
  introduce unsigned hexadecimal, octal and binary digits; otherwise an optional sign is
  followed by \<open>Infinity\<close> or by a decimal numeral (digits, an optional fraction, an
  optional exponent). Everything else converts to NaN.
\<close>

definition is_hex_digit :: "char \<Rightarrow> bool" where
  "is_hex_digit c = (is_digit c \<or> in_range (CHR ''a'') (CHR ''f'') c \<or> in_range (CHR ''A'') (CHR ''F'') c)"

definition all_of :: "(char \<Rightarrow> bool) \<Rightarrow> string \<Rightarrow> bool" where
  "all_of P s = (s \<noteq> [] \<and> list_all P s)"

text \<open>ExponentPart, or nothing: \<open>[eE][+-]?digits\<close>\<close>

definition is_exponent_opt :: "string \<Rightarrow> bool" where
  "is_exponent_opt s =
     (case s of
        [] \<Rightarrow> True
      | c # r \<Rightarrow>
          (c = CHR ''e'' \<or> c = CHR ''E'') \<and>
          (case r of
             [] \<Rightarrow> False
           | d # r' \<Rightarrow> if d = CHR ''+'' \<or> d = CHR ''-'' then all_of is_digit r' else all_of is_digit r))"

text \<open>StrUnsignedDecimalLiteral\<close>

definition is_unsigned_decimal :: "string \<Rightarrow> bool" where
  "is_unsigned_decimal s =
     (if s = ''Infinity'' then True
      else
        (let ds = takeWhile is_digit s; r = dropWhile is_digit s in
         case r of
           [] \<Rightarrow> ds \<noteq> []
         | c # r' \<Rightarrow>
             if c = CHR ''.'' then
               (let fs = takeWhile is_digit r'; e = dropWhile is_digit r' in
                (ds \<noteq> [] \<or> fs \<noteq> []) \<and> is_exponent_opt e)
             else ds \<noteq> [] \<and> is_exponent_opt r))"

definition is_radix_literal :: "string \<Rightarrow> bool" where
  "is_radix_literal s =
     (case s of
        z # x # r \<Rightarrow>
          z = CHR ''0'' \<and>
          (if x = CHR ''x'' \<or> x = CHR ''X'' then all_of is_hex_digit r
           else if x = CHR ''o'' \<or> x = CHR ''O'' then all_of (in_range (CHR ''0'') (CHR ''7'')) r
           else if x = CHR ''b'' \<or> x = CHR ''B'' then all_of (in_range (CHR ''0'') (CHR ''1'')) r
           else False)
      | _ \<Rightarrow> False)"

text \<open>\<open>!isNaN(Number(s))\<close>\<close>

definition number_not_nan :: "string \<Rightarrow> bool" where
  "number_not_nan s =
     (let t = trim s in
      case t of
        [] \<Rightarrow> True
      | c # r \<Rightarrow>
          if is_radix_literal t then True
          else if c = CHR ''+'' \<or> c = CHR ''-'' then is_unsigned_decimal r
          else is_unsigned_decimal t)"

section \<open>Values, callables and tool descriptors\<close>

datatype param_type = T_string | T_number | T_boolean | T_array | T_object

text \<open>
  Argument and result values. An object is the list of its own enumerable properties, each
  key once, in the order \<open>Object.entries\<close>, \<open>Object.keys\<close> and \<open>Object.values\<close> give
  them. Numbers are whole numbers here, and a number that is turned into text is taken to be
  below \<open>10^21\<close> in size, where the text is its decimal numeral; the executor and the
  server pass numbers on and never compute with them.
\<close>

datatype jsval =
    JUndefined
  | JNull
  | JBool bool
  | JNum int
  | JStr string
  | JArr "jsval list"
  | JObj "(string \<times> jsval) list"

text \<open>
  What evaluating an expression can raise, as a \<open>catch\<close> further out tells it apart: an
  instance of \<open>Error\<close> with its message, or another value.
\<close>

datatype raised = Raised_error string | Raised_other

text \<open>
  A thrown value or rejection reason, as the expression
  \<open>error instanceof Error ? error.message : String(error)\<close> in the \<open>catch\<close> of the executor
  tells them apart: an instance of the host's \<open>Error\<close>, with its message, a text; or another value
  that \<open>String\<close> converts, given by the text it makes of it (an error object made inside
  the module's own context is of this kind: it is no instance of the host's \<open>Error\<close>, and
  \<open>String\<close> gives its name, a colon and its message); or a value on which the expression
  itself raises, given by what it raises. \<open>String\<close> raises a \<open>TypeError\<close> on
  \<open>Object.create(null)\<close>, it raises whatever the \<open>toString\<close> of the value throws, and
  \<open>instanceof\<close> raises a \<open>TypeError\<close> on a revoked proxy.
\<close>

datatype thrown = Error_instance string | Non_error string | Unconvertible raised

text \<open>
  What a call of a handler does, as far as the executor can observe it: it keeps the (single)
  thread busy for some milliseconds and then returns a value or throws; a returned value is
  a plain value or a promise, and a promise settles some milliseconds after it was returned,
  or never. A promise of the host and a promise of the module's context come to the same:
  \<open>resolve\<close> follows either.
\<close>

datatype settlement = Fulfilled jsval | Rejected thrown

datatype promise = Settles_after nat settlement | Never_settles

datatype returned = Plain jsval | Promise promise

datatype sync_outcome = Returns returned | Throws thrown

record invocation =
  busy :: nat
  outcome :: sync_outcome

text \<open>
  The object a handler is applied to as \<open>this\<close>: the properties of the module's context,
  then \<open>args\<close>, \<open>result: null\<close> and \<open>error: null\<close>.
\<close>

record execution_context =
  context_properties :: "(string \<times> jsval) list"
  args :: jsval
  result_slot :: jsval
  error_slot :: jsval

text \<open>A function value: its source text (\<open>func.toString()\<close>) and what applying it does.\<close>

record js_function =
  source :: string
  apply_to :: "execution_context \<Rightarrow> jsval list \<Rightarrow> invocation"

datatype schema_items = Items_of_type string

record schema_entry =
  entry_type :: param_type
  entry_description :: string
  items :: "schema_items option"

record input_schema =
  schema_type :: string
  properties :: "(string \<times> schema_entry) list"
  required :: "string list"

record mcp_tool =
  name :: string
  description :: string
  inputSchema :: input_schema
  handler :: js_function

section \<open>Signature inference (\<open>ModuleReflector\<close>)\<close>

record mcp_tool_parameter =
  pname :: string
  hasDefault :: bool
  ptype :: param_type

text \<open>
  What the code can raise while it reads a signature: reading a property of
  \<open>undefined\<close> is a \<open>TypeError\<close>.
\<close>

datatype js_error = TypeError

subsection \<open>\<open>inferParameterType\<close>\<close>

text \<open>
  The default text is \<open>param.split('=')[1].trim()\<close>: the piece between the first and the
  second \<open>=\<close> of the token. \<open>[1]\<close> of a split with fewer than two pieces is
  \<open>undefined\<close>, and \<open>.trim()\<close> of it raises.
\<close>

definition infer_from_default :: "string \<Rightarrow> param_type option" where
  "infer_from_default defaultValue =
     (if defaultValue = ''true'' \<or> defaultValue = ''false'' then Some T_boolean
      else if number_not_nan defaultValue then Some T_number
      else if startsWith defaultValue [CHR 0x22] \<or> startsWith defaultValue [CHR 0x27] then Some T_string
      else if startsWith defaultValue ''['' then Some T_array
      else if startsWith defaultValue ''{'' then Some T_object
      else None)"

definition infer_from_name :: "string \<Rightarrow> param_type" where
  "infer_from_name n =
     (if includes_str n ''count'' \<or> includes_str n ''num'' \<or> includes_str n ''size'' then T_number
      else if includes_str n ''flag'' \<or> includes_str n ''enable'' \<or> includes_str n ''is'' then T_boolean
      else if includes_str n ''list'' \<or> includes_str n ''array'' then T_array
      else if includes_str n ''config'' \<or> includes_str n ''options'' then T_object
      else T_string)"

definition infer_name_part :: "string \<Rightarrow> js_error + param_type" where
  "infer_name_part param =
     (case at_index (split_on (CHR ''='') param) 0 of
        None \<Rightarrow> Inl TypeError
      | Some n \<Rightarrow> Inr (infer_from_name (toLowerCase (trim n))))"

definition inferParameterType :: "string \<Rightarrow> js_error + param_type" where
  "inferParameterType param =
     (if includes_str param ''='' then
        (case at_index (split_on (CHR ''='') param) 1 of
           None \<Rightarrow> Inl TypeError
         | Some d \<Rightarrow>
             (case infer_from_default (trim d) of
                Some t \<Rightarrow> Inr t
              | None \<Rightarrow> infer_name_part param))
      else infer_name_part param)"

subsection \<open>The parameter list of a source text\<close>

text \<open>
  \<open>extractParameters\<close> matches the source text against
  \<^verbatim>\<open>/(?:function\s*\w*\s*|(?:\w+\s*=>|\([^)]*\)\s*=>))\s*\(([^)]*)\)/\<close>
  and reads the first group. The functions below are that expression, piece by piece. Each
  greedy repetition is followed by a character outside its own class (\<open>\s*\<close> by \<open>(\<close>
  or \<open>=\<close>, \<open>\w*\<close> by white space or \<open>(\<close>, \<open>[^)]*\<close> by \<open>)\<close>), so the longest
  repetition is the only one that can be continued and backtracking into it finds nothing
  more.
\<close>

text \<open>\<^verbatim>\<open>\s*\(([^)]*)\)\<close>: the end of the expression, with the group\<close>

definition rx_parameter_list :: "string \<Rightarrow> string option" where
  "rx_parameter_list s =
     (case dropWhile is_space s of
        [] \<Rightarrow> None
      | c # r \<Rightarrow>
          if c = CHR ''('' \<and> CHR '')'' \<in> set r
          then Some (takeWhile (\<lambda>x. x \<noteq> CHR '')'') r)
          else None)"

text \<open>\<^verbatim>\<open>\s*=>\<close> and then the end of the expression\<close>

definition rx_arrow :: "string \<Rightarrow> string option" where
  "rx_arrow s =
     (case dropWhile is_space s of
        c # d # r \<Rightarrow> if c = CHR ''='' \<and> d = CHR ''>'' then rx_parameter_list r else None
      | _ \<Rightarrow> None)"

text \<open>First alternative: \<^verbatim>\<open>function\s*\w*\s*\<close>\<close>

definition rx_function :: "string \<Rightarrow> string option" where
  "rx_function s =
     (if startsWith s ''function''
      then rx_parameter_list (dropWhile is_space (dropWhile is_word (dropWhile is_space (drop 8 s))))
      else None)"

text \<open>Second alternative: \<^verbatim>\<open>\w+\s*=>\<close>\<close>

definition rx_word_arrow :: "string \<Rightarrow> string option" where
  "rx_word_arrow s =
     (case s of
        [] \<Rightarrow> None
      | c # r \<Rightarrow> if is_word c then rx_arrow (dropWhile is_word r) else None)"

text \<open>Third alternative: \<^verbatim>\<open>\([^)]*\)\s*=>\<close>\<close>

definition rx_paren_arrow :: "string \<Rightarrow> string option" where
  "rx_paren_arrow s =
     (case s of
        [] \<Rightarrow> None
      | c # r \<Rightarrow>
          if c = CHR ''('' then
            (case dropWhile (\<lambda>x. x \<noteq> CHR '')'') r of
               [] \<Rightarrow> None
             | d # r' \<Rightarrow> rx_arrow r')
          else None)"

text \<open>The expression at one position: the alternatives in their order.\<close>

definition rx_at :: "string \<Rightarrow> string option" where
  "rx_at s =
     (case rx_function s of
        Some g \<Rightarrow> Some g
      | None \<Rightarrow>
          (case rx_word_arrow s of
             Some g \<Rightarrow> Some g
           | None \<Rightarrow> rx_paren_arrow s))"

text \<open>\<open>funcStr.match(...)\<close>: the leftmost position where the expression matches.\<close>

fun match_parameters :: "string \<Rightarrow> string option" where
  "match_parameters [] = rx_at []"
| "match_parameters (c # cs) =
     (case rx_at (c # cs) of
        Some g \<Rightarrow> Some g
      | None \<Rightarrow> match_parameters cs)"

subsection \<open>\<open>extractParameters\<close>\<close>

text \<open>\<open>name.replace(/[{}[\]]/g, '')\<close>\<close>

definition strip_destructuring :: "string \<Rightarrow> string" where
  "strip_destructuring n =
     filter (\<lambda>c. \<not> (c = CHR ''{'' \<or> c = CHR ''}'' \<or> c = CHR ''['' \<or> c = CHR '']'')) n"

text \<open>
  The descriptor of one token. \<open>const [name] = ...\<close> takes the first piece, \<open>undefined\<close>
  if there is none, and \<open>name.replace\<close> would raise on it.
\<close>

definition parameter_of :: "string \<Rightarrow> js_error + mcp_tool_parameter" where
  "parameter_of param =
     (case map trim (split_on (CHR ''='') param) of
        [] \<Rightarrow> Inl TypeError
      | n # others \<Rightarrow>
          (case inferParameterType param of
             Inl e \<Rightarrow> Inl e
           | Inr t \<Rightarrow>
               Inr \<lparr>pname = strip_destructuring n,
                    hasDefault = includes_str param ''='',
                    ptype = t\<rparr>))"

text \<open>\<open>.map(f)\<close> with an \<open>f\<close> that may raise: the first error ends it.\<close>

fun map_raising :: "('a \<Rightarrow> js_error + 'b) \<Rightarrow> 'a list \<Rightarrow> js_error + 'b list" where
  "map_raising f [] = Inr []"
| "map_raising f (x # xs) =
     (case f x of
        Inl e \<Rightarrow> Inl e
      | Inr y \<Rightarrow>
          (case map_raising f xs of
             Inl e \<Rightarrow> Inl e
           | Inr ys \<Rightarrow> Inr (y # ys)))"

definition extractParameters :: "string \<Rightarrow> js_error + mcp_tool_parameter list" where
  "extractParameters funcStr =
     (case match_parameters funcStr of
        None \<Rightarrow> Inr []
      | Some g \<Rightarrow>
          if g = [] then Inr []
          else map_raising parameter_of
                 (filter (\<lambda>param. param \<noteq> []) (map trim (split_on (CHR '','') g))))"

subsection \<open>\<open>generateParameterSchema\<close>\<close>

text \<open>
  \<open>schema[param.name] = ...\<close> on an object that was made as \<open>{}\<close>. The key
  \<open>__proto__\<close> is the accessor of \<open>Object.prototype\<close>: assigning an object to it sets
  the prototype and adds no property (a later \<open>schema['__proto__'].items = ...\<close> writes to
  that prototype object). Any other key that is already there keeps its place and takes the
  new entry. A new key that is an array index (the decimal numeral, with no leading zero, of
  a number below \<open>2^32 - 1\<close>) goes among the array indices, which come first and in
  ascending order; any other new key is added last.
\<close>

definition digits_value :: "string \<Rightarrow> int" where
  "digits_value k = foldl (\<lambda>n c. 10 * n + (of_char c - 48)) 0 k"

definition array_index :: "string \<Rightarrow> int option" where
  "array_index k =
     (case k of
        [] \<Rightarrow> None
      | c # r \<Rightarrow>
          if list_all is_digit k \<and> (c \<noteq> CHR ''0'' \<or> r = []) \<and> digits_value k < 4294967295
          then Some (digits_value k) else None)"

fun insert_index :: "int \<Rightarrow> string \<Rightarrow> 'a \<Rightarrow> (string \<times> 'a) list \<Rightarrow> (string \<times> 'a) list" where
  "insert_index n k v [] = [(k, v)]"
| "insert_index n k v ((k', v') # rest) =
     (case array_index k' of
        None \<Rightarrow> (k, v) # (k', v') # rest
      | Some m \<Rightarrow> if m < n then (k', v') # insert_index n k v rest else (k, v) # (k', v') # rest)"

definition set_property :: "string \<Rightarrow> 'a \<Rightarrow> (string \<times> 'a) list \<Rightarrow> (string \<times> 'a) list" where
  "set_property k v obj =
     (if k = ''__proto__'' then obj
      else if map_of obj k \<noteq> None then AList.update k v obj
      else (case array_index k of
              None \<Rightarrow> obj @ [(k, v)]
            | Some n \<Rightarrow> insert_index n k v obj))"

definition schema_entry_of :: "mcp_tool_parameter \<Rightarrow> schema_entry" where
  "schema_entry_of param =
     (let entry = \<lparr>entry_type = ptype param,
                   entry_description = ''Parameter: '' @ pname param,
                   items = None\<rparr>
      in if ptype param = T_array then entry\<lparr>items := Some (Items_of_type ''string'')\<rparr> else entry)"

fun schema_loop :: "mcp_tool_parameter list \<Rightarrow> (string \<times> schema_entry) list \<Rightarrow> (string \<times> schema_entry) list" where
  "schema_loop [] schema = schema"
| "schema_loop (param # params) schema =
     schema_loop params (set_property (pname param) (schema_entry_of param) schema)"

definition generateParameterSchema :: "mcp_tool_parameter list \<Rightarrow> (string \<times> schema_entry) list" where
  "generateParameterSchema params = schema_loop params []"

subsection \<open>\<open>extractJSDoc\<close>\<close>

text \<open>
  \<^verbatim>\<open>/\/\*\*\s*(.*?)\s*\*\//s\<close>: after the first \<open>/**\<close> that is closed, and the white space
  behind it, the group is the shortest text that white space and \<open>*/\<close> follow.
\<close>

definition closes_comment :: "string \<Rightarrow> bool" where
  "closes_comment s = startsWith (dropWhile is_space s) ''*/''"

fun lazy_group :: "string \<Rightarrow> string option" where
  "lazy_group [] = None"
| "lazy_group (c # cs) =
     (if closes_comment (c # cs) then Some []
      else (case lazy_group cs of
              None \<Rightarrow> None
            | Some g \<Rightarrow> Some (c # g)))"

fun match_jsdoc :: "string \<Rightarrow> string option" where
  "match_jsdoc [] = None"
| "match_jsdoc (c # cs) =
     (if startsWith (c # cs) ''/**'' then
        (case lazy_group (dropWhile is_space (drop 3 (c # cs))) of
           Some g \<Rightarrow> Some g
         | None \<Rightarrow> match_jsdoc cs)
      else match_jsdoc cs)"

text \<open>\<open>line.replace(/^\s*\*\s?/, '')\<close>\<close>

definition strip_marker :: "string \<Rightarrow> string" where
  "strip_marker line =
     (case dropWhile is_space line of
        [] \<Rightarrow> line
      | c # r \<Rightarrow>
          if c = CHR ''*'' then
            (case r of
               [] \<Rightarrow> []
             | d # r' \<Rightarrow> if is_space d then r' else r)
          else line)"

text \<open>\<open>pieces.join(sep)\<close>\<close>

fun join :: "string \<Rightarrow> string list \<Rightarrow> string" where
  "join sep [] = []"
| "join sep [x] = x"
| "join sep (x # y # ys) = x @ sep @ join sep (y # ys)"

definition extractJSDoc :: "string \<Rightarrow> string option" where
  "extractJSDoc funcStr =
     (case match_jsdoc funcStr of
        None \<Rightarrow> None
      | Some g \<Rightarrow> Some (trim (join '' '' (map strip_marker (split_on (CHR 0x0A) g)))))"

section \<open>Walking the exports (\<open>ModuleReflector.analyzeExports\<close>)\<close>

text \<open>
  \<open>analyzeFunction\<close>: the descriptor of one callable. An absent or empty documentation
  comment gives the generated description.
\<close>

definition analyzeFunction :: "string \<Rightarrow> js_function \<Rightarrow> js_error + mcp_tool" where
  "analyzeFunction nm func =
     (let funcStr = source func in
      case extractParameters funcStr of
        Inl e \<Rightarrow> Inl e
      | Inr params \<Rightarrow>
          Inr \<lparr>name = nm,
               description =
                 (case extractJSDoc funcStr of
                    None \<Rightarrow> ''Execute '' @ nm @ '' function''
                  | Some d \<Rightarrow> if d = [] then ''Execute '' @ nm @ '' function'' else d),
               inputSchema =
                 \<lparr>schema_type = ''object'',
                  properties = generateParameterSchema params,
                  required = map pname (filter (\<lambda>p. \<not> hasDefault p) params)\<rparr>,
               handler = func\<rparr>)"

text \<open>
  An exported value, as the walk tells values apart: by \<open>typeof\<close>, \<open>null\<close> and
  \<open>Array.isArray\<close>. An object is the list of its entries in the order of
  \<open>Object.entries\<close>; values are finite trees, so an object does not contain itself.
\<close>

datatype export_val =
    Function_value js_function
  | Object_value "(string \<times> export_val) list"
  | Array_value "export_val list"
  | Null_value
  | Primitive_value

definition tool_name :: "string \<Rightarrow> string \<Rightarrow> string" where
  "tool_name prefix key = (if prefix \<noteq> [] then prefix @ ''_'' @ key else key)"

text \<open>
  \<open>traverse\<close> pushes onto the array \<open>tools\<close> of the enclosing call; here the array is
  passed in and returned.
\<close>

fun traverse :: "(string \<times> export_val) list \<Rightarrow> string \<Rightarrow> mcp_tool list \<Rightarrow> js_error + mcp_tool list" where
  "traverse [] prefix tools = Inr tools"
| "traverse ((key, Function_value f) # rest) prefix tools =
     (case analyzeFunction (tool_name prefix key) f of
        Inl e \<Rightarrow> Inl e
      | Inr tool \<Rightarrow> traverse rest prefix (tools @ [tool]))"
| "traverse ((key, Object_value obj) # rest) prefix tools =
     (case traverse obj (tool_name prefix key) tools of
        Inl e \<Rightarrow> Inl e
      | Inr tools' \<Rightarrow> traverse rest prefix tools')"
| "traverse ((key, Array_value xs) # rest) prefix tools = traverse rest prefix tools"
| "traverse ((key, Null_value) # rest) prefix tools = traverse rest prefix tools"
| "traverse ((key, Primitive_value) # rest) prefix tools = traverse rest prefix tools"

text \<open>\<open>Object.entries\<close> of an array: its elements under their indices.\<close>

definition array_entries :: "'a list \<Rightarrow> (string \<times> 'a) list" where
  "array_entries xs = zip (map decimal [0..<length xs]) xs"

definition analyzeExports :: "export_val \<Rightarrow> js_error + mcp_tool list" where
  "analyzeExports exports =
     (case exports of
        Function_value f \<Rightarrow>
          (case analyzeFunction ''default'' f of
             Inl e \<Rightarrow> Inl e
           | Inr tool \<Rightarrow> Inr [tool])
      | Object_value obj \<Rightarrow> traverse obj [] []
      | Array_value xs \<Rightarrow> traverse (array_entries xs) [] []
      | Null_value \<Rightarrow> Inr []
      | Primitive_value \<Rightarrow> Inr [])"

section \<open>The executor (\<open>ToolExecutor\<close>)\<close>

text \<open>
  The registry is a \<open>Map\<close>: \<open>set\<close> on a new name adds it last, on a name already there
  replaces the tool in its place; \<open>values()\<close> lists the tools in that order.
\<close>

record tool_executor =
  timeout :: nat
  vm_context :: "(string \<times> jsval) list"
  tools :: "(string \<times> mcp_tool) list"

definition new_ToolExecutor :: "(string \<times> jsval) list \<Rightarrow> nat option \<Rightarrow> tool_executor" where
  "new_ToolExecutor c t =
     \<lparr>timeout = (case t of None \<Rightarrow> 5000 | Some ms \<Rightarrow> ms), vm_context = c, tools = []\<rparr>"

definition addTool :: "tool_executor \<Rightarrow> mcp_tool \<Rightarrow> tool_executor" where
  "addTool ex tool = ex\<lparr>tools := AList.update (name tool) tool (tools ex)\<rparr>"

definition addTools :: "tool_executor \<Rightarrow> mcp_tool list \<Rightarrow> tool_executor" where
  "addTools ex ts = fold (\<lambda>tool e. addTool e tool) ts ex"

definition getTools :: "tool_executor \<Rightarrow> mcp_tool list" where
  "getTools ex = map snd (tools ex)"

definition getTool :: "tool_executor \<Rightarrow> string \<Rightarrow> mcp_tool option" where
  "getTool ex n = map_of (tools ex) n"

subsection \<open>\<open>executeTool\<close>\<close>

text \<open>
  An asynchronous function either rejects, with an \<open>Error\<close> (\<open>Raises\<close>, with the
  message) or with a value that is no \<open>Error\<close> (\<open>Raises_other\<close>), or fulfils
  (\<open>Completes\<close>), or stays pending for ever.
\<close>

datatype 'a completion = Raises string | Raises_other | Completes 'a | Never_completes

record execution_result =
  success :: bool
  result :: "jsval option"
  error :: "string option"
  toolName :: string
  executionTime :: nat

text \<open>The effects of a call, in the order they happen.\<close>

datatype effect =
    Date_now nat
  | Set_timeout nat
  | Clear_timeout
  | Handler_apply "jsval list"
  | Timer_fired

text \<open>
  \<open>Object.values(args)\<close>: the values of an object in the order of its entries, the elements
  of an array, the characters of a string, nothing for a number or a boolean; \<open>null\<close> and
  \<open>undefined\<close> raise.
\<close>

definition Object_values :: "jsval \<Rightarrow> thrown + jsval list" where
  "Object_values v =
     (case v of
        JObj entries \<Rightarrow> Inr (map snd entries)
      | JArr xs \<Rightarrow> Inr xs
      | JStr cs \<Rightarrow> Inr (map (\<lambda>c. JStr [c]) cs)
      | JBool b \<Rightarrow> Inr []
      | JNum n \<Rightarrow> Inr []
      | JNull \<Rightarrow> Inl (Error_instance ''Cannot convert undefined or null to object'')
      | JUndefined \<Rightarrow> Inl (Error_instance ''Cannot convert undefined or null to object''))"

text \<open>\<open>error instanceof Error ? error.message : String(error)\<close>: a text, or it raises.\<close>

definition error_message :: "thrown \<Rightarrow> raised + string" where
  "error_message e =
     (case e of
        Error_instance m \<Rightarrow> Inr m
      | Non_error s \<Rightarrow> Inr s
      | Unconvertible r \<Rightarrow> Inl r)"

text \<open>
  The promise that \<open>executeTool\<close> builds and awaits. Its state after the function given to
  \<open>new Promise\<close> has run: the time, the timer if it is still armed (with the time it is
  due), the settlement if \<open>resolve\<close> or \<open>reject\<close> has been called already, the
  handler's promise if \<open>resolve\<close> and \<open>reject\<close> were chained to it, and the effects so far.
\<close>

record promise_state =
  clock :: nat
  timer :: "nat option"
  settled :: "settlement option"
  chained :: "promise option"
  effects :: "effect list"

definition setTimeout :: "nat \<Rightarrow> promise_state \<Rightarrow> promise_state" where
  "setTimeout ms st = st\<lparr>timer := Some (clock st + ms), effects := effects st @ [Set_timeout ms]\<rparr>"

definition clearTimeout :: "promise_state \<Rightarrow> promise_state" where
  "clearTimeout st = st\<lparr>timer := None, effects := effects st @ [Clear_timeout]\<rparr>"

text \<open>\<open>resolve\<close> and \<open>reject\<close> settle a promise once; later calls change nothing.\<close>

definition settle :: "settlement \<Rightarrow> promise_state \<Rightarrow> promise_state" where
  "settle s st = (case settled st of None \<Rightarrow> st\<lparr>settled := Some s\<rparr> | Some s' \<Rightarrow> st)"

text \<open>
  The function given to \<open>new Promise\<close>. It runs to its end on the one thread there is: the
  timer it sets cannot fire before it returns, however long the handler keeps the thread.
\<close>

definition execution_context_of :: "tool_executor \<Rightarrow> jsval \<Rightarrow> execution_context" where
  "execution_context_of ex as =
     \<lparr>context_properties = vm_context ex, args = as, result_slot = JNull, error_slot = JNull\<rparr>"

definition promise_executor :: "tool_executor \<Rightarrow> mcp_tool \<Rightarrow> jsval \<Rightarrow> promise_state \<Rightarrow> promise_state" where
  "promise_executor ex tool as st0 =
     (let st1 = setTimeout (timeout ex) st0;
          executionContext = execution_context_of ex as
      in case Object_values as of
           Inl e \<Rightarrow> settle (Rejected e) (clearTimeout st1)
         | Inr vs \<Rightarrow>
             (let run = apply_to (handler tool) executionContext vs;
                  st2 = st1\<lparr>clock := clock st1 + busy run, effects := effects st1 @ [Handler_apply vs]\<rparr>
              in case outcome run of
                   Throws e \<Rightarrow> settle (Rejected e) (clearTimeout st2)
                 | Returns out \<Rightarrow>
                     (let st3 = clearTimeout st2
                      in case out of
                           Promise p \<Rightarrow> st3\<lparr>chained := Some p\<rparr>
                         | Plain v \<Rightarrow> settle (Fulfilled v) st3)))"

text \<open>
  \<open>await\<close>: the thread is free and pending events run in the order of their times. An
  armed timer rejects the promise with \<open>Execution timeout\<close> when it is due; the handler's
  promise settles it when it settles (first, if both fall on the same millisecond). The
  result is the state once the promise is settled, or nothing if no event is left that could
  settle it.
\<close>

definition timeout_error :: thrown where
  "timeout_error = Error_instance ''Execution timeout''"

definition fire_timer :: "nat \<Rightarrow> promise_state \<Rightarrow> promise_state" where
  "fire_timer due st =
     settle (Rejected timeout_error)
       (st\<lparr>clock := max due (clock st), timer := None, effects := effects st @ [Timer_fired]\<rparr>)"

definition await_promise :: "promise_state \<Rightarrow> promise_state option" where
  "await_promise st =
     (case settled st of
        Some s \<Rightarrow> Some st
      | None \<Rightarrow>
          (case chained st of
             Some (Settles_after d s) \<Rightarrow>
               (case timer st of
                  None \<Rightarrow> Some (settle s (st\<lparr>clock := clock st + d\<rparr>))
                | Some due \<Rightarrow>
                    if due < clock st + d then Some (fire_timer due st)
                    else Some (settle s (st\<lparr>clock := clock st + d\<rparr>)))
           | Some Never_settles \<Rightarrow>
               (case timer st of
                  None \<Rightarrow> None
                | Some due \<Rightarrow> Some (fire_timer due st))
           | None \<Rightarrow>
               (case timer st of
                  None \<Rightarrow> None
                | Some due \<Rightarrow> Some (fire_timer due st))))"

text \<open>
  The \<open>return\<close> in the \<open>catch\<close> of \<open>executeTool\<close>, for the error \<open>e\<close> caught at
  time \<open>t\<close>: the object is built field by field, so if the expression for \<open>error\<close> raises,
  \<open>executeTool\<close> rejects with what it raises and the clock is not read again.
\<close>

definition failure_result :: "string \<Rightarrow> nat \<Rightarrow> thrown \<Rightarrow> execution_result completion" where
  "failure_result tn elapsed e =
     (case error_message e of
        Inr m \<Rightarrow>
          Completes \<lparr>success = False, result = None, error = Some m, toolName = tn,
                     executionTime = elapsed\<rparr>
      | Inl (Raised_error m) \<Rightarrow> Raises m
      | Inl Raised_other \<Rightarrow> Raises_other)"

text \<open>The two \<open>return\<close> statements of \<open>executeTool\<close>.\<close>

definition execution_result_of :: "string \<Rightarrow> nat \<Rightarrow> promise_state \<Rightarrow> execution_result completion \<times> effect list" where
  "execution_result_of tn startTime st =
     (case settled st of
        None \<Rightarrow> (Never_completes, effects st)
      | Some (Fulfilled v) \<Rightarrow>
          (Completes \<lparr>success = True, result = Some v, error = None, toolName = tn,
                      executionTime = clock st - startTime\<rparr>,
           effects st @ [Date_now (clock st)])
      | Some (Rejected e) \<Rightarrow>
          (failure_result tn (clock st - startTime) e,
           (case error_message e of
              Inr m \<Rightarrow> effects st @ [Date_now (clock st)]
            | Inl r \<Rightarrow> effects st)))"

text \<open>
  \<open>executeTool\<close>, called at time \<open>now\<close>. An omitted or \<open>undefined\<close> \<open>args\<close>
  is the empty object.
\<close>

definition default_args :: "jsval \<Rightarrow> jsval" where
  "default_args as = (if as = JUndefined then JObj [] else as)"

definition executeTool :: "tool_executor \<Rightarrow> nat \<Rightarrow> string \<Rightarrow> jsval \<Rightarrow> execution_result completion \<times> effect list" where
  "executeTool ex now tn as0 =
     (let as = default_args as0
      in case getTool ex tn of
           None \<Rightarrow> (Raises (''Tool '' @ [CHR 0x27] @ tn @ [CHR 0x27] @ '' not found''), [])
         | Some tool \<Rightarrow>
             (let startTime = now;
                  st = promise_executor ex tool as
                         \<lparr>clock = now, timer = None, settled = None, chained = None,
                          effects = [Date_now now]\<rparr>
              in case await_promise st of
                   None \<Rightarrow> (Never_completes, effects st)
                 | Some st' \<Rightarrow> execution_result_of tn startTime st'))"

text \<open>
  What a call comes to when the handler alone decides: its value or its error, after the
  time it took, and nothing while its promise stays pending.
\<close>

definition completion_of_run :: "string \<Rightarrow> invocation \<Rightarrow> execution_result completion" where
  "completion_of_run tn run =
     (case outcome run of
        Throws e \<Rightarrow> failure_result tn (busy run) e
      | Returns (Plain v) \<Rightarrow>
          Completes \<lparr>success = True, result = Some v, error = None, toolName = tn,
                     executionTime = busy run\<rparr>
      | Returns (Promise (Settles_after d (Fulfilled v))) \<Rightarrow>
          Completes \<lparr>success = True, result = Some v, error = None, toolName = tn,
                     executionTime = busy run + d\<rparr>
      | Returns (Promise (Settles_after d (Rejected e))) \<Rightarrow> failure_result tn (busy run + d) e
      | Returns (Promise Never_settles) \<Rightarrow> Never_completes)"

text \<open>
  The value a call fails with, if it fails: what the handler throws, or what its promise is
  rejected with.
\<close>

definition failure_of :: "invocation \<Rightarrow> thrown option" where
  "failure_of run =
     (case outcome run of
        Throws e \<Rightarrow> Some e
      | Returns (Plain v) \<Rightarrow> None
      | Returns (Promise (Settles_after d (Fulfilled v))) \<Rightarrow> None
      | Returns (Promise (Settles_after d (Rejected e))) \<Rightarrow> Some e
      | Returns (Promise Never_settles) \<Rightarrow> None)"

definition raises_outward :: "'a completion \<Rightarrow> bool" where
  "raises_outward c =
     (case c of
        Raises m \<Rightarrow> True
      | Raises_other \<Rightarrow> True
      | Completes r \<Rightarrow> False
      | Never_completes \<Rightarrow> False)"

section \<open>The protocol server (\<open>MCPServer\<close>)\<close>

datatype request_id = Id_string string | Id_number int

text \<open>A request: \<open>id\<close> and \<open>method\<close> may be absent; absent \<open>params\<close> are \<open>undefined\<close>.\<close>

record mcp_message =
  msg_id :: "request_id option"
  msg_method :: "string option"
  msg_params :: jsval

record tool_info =
  info_name :: string
  info_description :: string
  info_inputSchema :: input_schema

text \<open>
  The results of the five methods. The content of a tool call is the value that
  \<open>JSON.stringify\<close> turns into the text of the reply.
\<close>

datatype mcp_result =
    Initialize_result string string string
  | Empty_result
  | Tools_result "tool_info list"
  | Content_result "jsval option"
  | Pong_result

datatype mcp_body = Result mcp_result | Error_body int string

record mcp_response =
  response_id :: "request_id option"
  body :: mcp_body

definition tool_info_of :: "mcp_tool \<Rightarrow> tool_info" where
  "tool_info_of tool =
     \<lparr>info_name = name tool, info_description = description tool, info_inputSchema = inputSchema tool\<rparr>"

text \<open>What a condition makes of a value, and a value inside a template literal.\<close>

definition truthy :: "jsval \<Rightarrow> bool" where
  "truthy v =
     (case v of
        JUndefined \<Rightarrow> False
      | JNull \<Rightarrow> False
      | JBool b \<Rightarrow> b
      | JNum n \<Rightarrow> n \<noteq> 0
      | JStr cs \<Rightarrow> cs \<noteq> []
      | JArr xs \<Rightarrow> True
      | JObj entries \<Rightarrow> True)"

fun template_string :: "jsval \<Rightarrow> string" where
  "template_string JUndefined = ''undefined''"
| "template_string JNull = ''null''"
| "template_string (JBool b) = (if b then ''true'' else ''false'')"
| "template_string (JNum n) = (if n < 0 then ''-'' @ decimal (nat (- n)) else decimal (nat n))"
| "template_string (JStr cs) = cs"
| "template_string (JArr xs) =
     join '','' (map (\<lambda>x. if x = JUndefined \<or> x = JNull then [] else template_string x) xs)"
| "template_string (JObj entries) = ''[object Object]''"

text \<open>
  \<open>v?.key\<close> and \<open>v.key\<close> for the keys \<open>name\<close> and \<open>arguments\<close>: the property of an
  object, \<open>undefined\<close> on everything else (the second form is only reached on a value that
  is neither \<open>null\<close> nor \<open>undefined\<close>).
\<close>

definition get_property :: "jsval \<Rightarrow> string \<Rightarrow> jsval" where
  "get_property v key =
     (case v of
        JObj entries \<Rightarrow> (case map_of entries key of None \<Rightarrow> JUndefined | Some x \<Rightarrow> x)
      | _ \<Rightarrow> JUndefined)"

text \<open>
  The \<open>catch\<close> of \<open>handleMCPRequest\<close>, given the text
  \<open>error instanceof Error ? error.message : 'Internal error'\<close>.
\<close>

definition error_response :: "mcp_message \<Rightarrow> string \<Rightarrow> mcp_response" where
  "error_response message m = \<lparr>response_id = msg_id message, body = Error_body (- 32603) m\<rparr>"

text \<open>
  \<open>executeTool\<close> on whatever \<open>params.name\<close> is: the registry has strings for keys, so a
  name that is no string is not found.
\<close>

definition executeTool_named :: "tool_executor \<Rightarrow> nat \<Rightarrow> jsval \<Rightarrow> jsval \<Rightarrow> execution_result completion" where
  "executeTool_named ex now nm as =
     (case nm of
        JStr tn \<Rightarrow> fst (executeTool ex now tn as)
      | _ \<Rightarrow> Raises (''Tool '' @ [CHR 0x27] @ template_string nm @ [CHR 0x27] @ '' not found''))"

definition tools_call :: "tool_executor \<Rightarrow> nat \<Rightarrow> mcp_message \<Rightarrow> mcp_response completion" where
  "tools_call ex now message =
     (let nm = get_property (msg_params message) ''name''
      in if \<not> truthy nm then Completes (error_response message ''Tool name is required'')
         else
           (let arguments = get_property (msg_params message) ''arguments'';
                as = (if truthy arguments then arguments else JObj [])
            in case executeTool_named ex now nm as of
                 Raises m \<Rightarrow> Completes (error_response message m)
               | Raises_other \<Rightarrow> Completes (error_response message ''Internal error'')
               | Never_completes \<Rightarrow> Never_completes
               | Completes r \<Rightarrow>
                   if \<not> success r then
                     Completes (error_response message
                       (case error r of
                          None \<Rightarrow> ''Tool execution failed''
                        | Some m \<Rightarrow> if m = [] then ''Tool execution failed'' else m))
                   else
                     Completes \<lparr>response_id = msg_id message, body = Result (Content_result (result r))\<rparr>))"

definition handleMCPRequest :: "tool_executor \<Rightarrow> nat \<Rightarrow> mcp_message \<Rightarrow> mcp_response completion" where
  "handleMCPRequest ex now message =
     (case msg_method message of
        None \<Rightarrow> Completes (error_response message (''Unknown method: '' @ ''undefined''))
      | Some m \<Rightarrow>
          if m = ''initialize'' then
            Completes \<lparr>response_id = msg_id message,
                       body = Result (Initialize_result ''2024-11-05'' ''mcp-sandbox'' ''1.0.0'')\<rparr>
          else if m = ''notifications/initialized'' then
            Completes \<lparr>response_id = msg_id message, body = Result Empty_result\<rparr>
          else if m = ''tools/list'' then
            Completes \<lparr>response_id = msg_id message,
                       body = Result (Tools_result (map tool_info_of (getTools ex)))\<rparr>
          else if m = ''tools/call'' then tools_call ex now message
          else if m = ''ping'' then
            Completes \<lparr>response_id = msg_id message, body = Result Pong_result\<rparr>
          else Completes (error_response message (''Unknown method: '' @ m)))"

text \<open>
  The route \<open>POST /mcp/jsonrpc\<close>: the reply's status and body, and whether the call was
  broadcast to the push clients.
\<close>

record http_reply =
  status :: nat
  reply :: mcp_response
  broadcast :: bool

definition internal_error_reply :: "mcp_message \<Rightarrow> string \<Rightarrow> http_reply" where
  "internal_error_reply message m =
     \<lparr>status = 500,
      reply = \<lparr>response_id =
                 (case msg_id message of
                    None \<Rightarrow> None
                  | Some (Id_string cs) \<Rightarrow> if cs = [] then None else Some (Id_string cs)
                  | Some (Id_number n) \<Rightarrow> if n = 0 then None else Some (Id_number n)),
               body = Error_body (- 32603) m\<rparr>,
      broadcast = False\<rparr>"

definition post_jsonrpc :: "tool_executor \<Rightarrow> nat \<Rightarrow> mcp_message \<Rightarrow> http_reply completion" where
  "post_jsonrpc ex now message =
     (case handleMCPRequest ex now message of
        Completes response \<Rightarrow>
          Completes \<lparr>status = 200, reply = response,
                     broadcast = (msg_method message = Some ''tools/call'')\<rparr>
      | Never_completes \<Rightarrow> Never_completes
      | Raises m \<Rightarrow> Completes (internal_error_reply message m)
      | Raises_other \<Rightarrow> Completes (internal_error_reply message ''Internal error''))"

subsection \<open>The generated configuration\<close>

record sandbox_options =
  port :: "nat option"
  host :: "string option"
  timeout_ms :: "nat option"
  maxMemory :: "nat option"

record server_options =
  server_port :: nat
  server_host :: string
  server_timeout :: nat
  server_maxMemory :: nat

text \<open>\<open>options.port || 3000\<close> and the like: an absent, zero or empty option takes the default.\<close>

definition or_default :: "'a \<Rightarrow> 'a \<Rightarrow> 'a option \<Rightarrow> 'a" where
  "or_default falsy d v = (case v of None \<Rightarrow> d | Some x \<Rightarrow> if x = falsy then d else x)"

definition server_options_of :: "sandbox_options \<Rightarrow> server_options" where
  "server_options_of opts =
     \<lparr>server_port = or_default 0 3000 (port opts),
      server_host = or_default [] ''localhost'' (host opts),
      server_timeout = or_default 0 5000 (timeout_ms opts),
      server_maxMemory = or_default 0 (64 * 1024 * 1024) (maxMemory opts)\<rparr>"

record mcp_server =
  options :: server_options
  server_executor :: "tool_executor option"

record endpoints =
  endpoint_tools :: string
  endpoint_execute :: string
  endpoint_sse :: string
  endpoint_jsonrpc :: string

record mcp_config =
  config_name :: string
  config_version :: string
  config_description :: string
  config_tools :: "tool_info list"
  capability_tools :: bool
  capability_sampling :: bool
  capability_logging :: bool
  config_endpoints :: endpoints

definition generateMCPConfig :: "mcp_server \<Rightarrow> mcp_tool list \<Rightarrow> mcp_config" where
  "generateMCPConfig srv ts =
     (let base = ''http://'' @ server_host (options srv) @ '':'' @ decimal (server_port (options srv))
      in \<lparr>config_name = ''mcp-sandbox'',
          config_version = ''1.0.0'',
          config_description = ''Dynamically generated MCP server from JavaScript module'',
          config_tools = map tool_info_of ts,
          capability_tools = True,
          capability_sampling = False,
          capability_logging = True,
          config_endpoints =
            \<lparr>endpoint_tools = base @ ''/mcp/tools'',
             endpoint_execute = base @ ''/mcp/execute'',
             endpoint_sse = base @ ''/sse'',
             endpoint_jsonrpc = base @ ''/mcp/jsonrpc''\<rparr>\<rparr>)"

section \<open>The sandbox (\<open>MCPSandbox\<close>)\<close>

record mcp_sandbox =
  reflector_timeout :: nat
  executor :: "tool_executor option"
  server :: mcp_server

definition new_MCPSandbox :: "sandbox_options \<Rightarrow> mcp_sandbox" where
  "new_MCPSandbox opts =
     \<lparr>reflector_timeout = (case timeout_ms opts of None \<Rightarrow> 5000 | Some ms \<Rightarrow> ms),
      executor = None,
      server = \<lparr>options = server_options_of opts, server_executor = None\<rparr>\<rparr>"

definition no_module_loaded :: string where
  "no_module_loaded = ''No module loaded. Call loadModule() first.''"

text \<open>
  \<open>reflectModule\<close>, given what reading the file and running it in a fresh context came to:
  the text that the \<open>catch\<close> makes of the error raised, or the exported value and the
  context. Every error is wrapped.
\<close>

definition js_error_text :: "js_error \<Rightarrow> string" where
  "js_error_text e = (case e of TypeError \<Rightarrow> ''Cannot read properties of undefined'')"

definition reflectModule :: "string + export_val \<times> (string \<times> jsval) list \<Rightarrow> (mcp_tool list \<times> (string \<times> jsval) list) completion" where
  "reflectModule loaded =
     (case loaded of
        Inl m \<Rightarrow> Raises (''Failed to reflect module: '' @ m)
      | Inr (moduleExports, c) \<Rightarrow>
          (case analyzeExports moduleExports of
             Inl e \<Rightarrow> Raises (''Failed to reflect module: '' @ js_error_text e)
           | Inr ts \<Rightarrow> Completes (ts, c)))"

definition loadModule :: "mcp_sandbox \<Rightarrow> string + export_val \<times> (string \<times> jsval) list \<Rightarrow> mcp_config completion \<times> mcp_sandbox" where
  "loadModule sb loaded =
     (case reflectModule loaded of
        Raises m \<Rightarrow> (Raises m, sb)
      | Raises_other \<Rightarrow> (Raises_other, sb)
      | Never_completes \<Rightarrow> (Never_completes, sb)
      | Completes (ts, c) \<Rightarrow>
          (let ex = addTools (new_ToolExecutor c None) ts;
               srv = (server sb)\<lparr>server_executor := Some ex\<rparr>
           in (Completes (generateMCPConfig srv ts), sb\<lparr>executor := Some ex, server := srv\<rparr>)))"

text \<open>
  \<open>saveConfig\<close>, given the default path (\<open>mcp-config.json\<close> in the working directory) and
  what writing a file comes to (the message of the error, if it fails). It returns the path;
  the configuration written there is kept beside it.
\<close>

definition saveConfig :: "mcp_sandbox \<Rightarrow> string \<Rightarrow> (string \<Rightarrow> string option) \<Rightarrow> string option \<Rightarrow> (string \<times> mcp_config) completion" where
  "saveConfig sb default_path write_error outputPath =
     (case executor sb of
        None \<Rightarrow> Raises no_module_loaded
      | Some ex \<Rightarrow>
          (let config = generateMCPConfig (server sb) (getTools ex);
               configPath = or_default [] default_path outputPath
           in case write_error configPath of
                Some m \<Rightarrow> Raises m
              | None \<Rightarrow> Completes (configPath, config)))"

text \<open>\<open>start\<close>, given what \<open>listen\<close> on the configured address comes to.\<close>

definition start :: "mcp_sandbox \<Rightarrow> 'server completion \<Rightarrow> 'server completion" where
  "start sb listening =
     (case executor sb of
        None \<Rightarrow> Raises no_module_loaded
      | Some ex \<Rightarrow> listening)"

definition sandbox_executeTool :: "mcp_sandbox \<Rightarrow> nat \<Rightarrow> string \<Rightarrow> jsval \<Rightarrow> execution_result completion" where
  "sandbox_executeTool sb now tn as =
     (case executor sb of
        None \<Rightarrow> Raises no_module_loaded
      | Some ex \<Rightarrow> fst (executeTool ex now tn as))"

definition sandbox_getTools :: "mcp_sandbox \<Rightarrow> mcp_tool list" where
  "sandbox_getTools sb =
     (case executor sb of
        None \<Rightarrow> []
      | Some ex \<Rightarrow> getTools ex)"

section \<open>The callables of an aggregate\<close>

text \<open>
  The callables that, in the words of the specification, a walk over the members of an
  aggregate is to register, each with the name of its tool, in the order of the members: a callable member under its key joined to
  the prefix; the callables of a nested object under that member's name as their prefix;
  nothing for arrays, \<open>null\<close> and scalars.
\<close>

fun callable_members :: "string \<Rightarrow> (string \<times> export_val) list \<Rightarrow> (string \<times> js_function) list" where
  "callable_members prefix [] = []"
| "callable_members prefix ((key, Function_value f) # rest) =
     (tool_name prefix key, f) # callable_members prefix rest"
| "callable_members prefix ((key, Object_value obj) # rest) =
     callable_members (tool_name prefix key) obj @ callable_members prefix rest"
| "callable_members prefix ((key, Array_value xs) # rest) = callable_members prefix rest"
| "callable_members prefix ((key, Null_value) # rest) = callable_members prefix rest"
| "callable_members prefix ((key, Primitive_value) # rest) = callable_members prefix rest"

section \<open>Arguments in the order of the schema\<close>

text \<open>
  The positional arguments that binding by the schema would give: the values of an argument
  bag in the order in which the schema of a tool declares its parameters, \<open>undefined\<close> for
  a parameter the bag has no value for.
\<close>

definition schema_order_values :: "mcp_tool \<Rightarrow> (string \<times> jsval) list \<Rightarrow> jsval list" where
  "schema_order_values tool bag =
     map (\<lambda>key. case map_of bag key of None \<Rightarrow> JUndefined | Some v \<Rightarrow> v)
       (map fst (properties (inputSchema tool)))"

section \<open>Type inference as an ordered table of rules\<close>

text \<open>
  The inference as the specification words it, a priority of rules: the first rule that
  applies decides. A token has a default when it contains \<open>=\<close>; its name is the text before the first \<open>=\<close>, its
  default text the text between the first \<open>=\<close> and the second (or the end), both
  trimmed. The test for a number is a parameter of the table.
\<close>

definition name_text :: "string \<Rightarrow> string" where
  "name_text token = trim (takeWhile (\<lambda>c. c \<noteq> CHR ''='') token)"

definition default_text :: "string \<Rightarrow> string" where
  "default_text token =
     trim (takeWhile (\<lambda>c. c \<noteq> CHR ''='') (drop 1 (dropWhile (\<lambda>c. c \<noteq> CHR ''='') token)))"

fun first_rule :: "(('a \<Rightarrow> bool) \<times> 'b) list \<Rightarrow> 'a \<Rightarrow> 'b option" where
  "first_rule [] x = None"
| "first_rule ((applies, t) # rules) x = (if applies x then Some t else first_rule rules x)"

definition is_quoted :: "string \<Rightarrow> bool" where
  "is_quoted d = (startsWith d [CHR 0x22] \<or> startsWith d [CHR 0x27])"

definition literal_rules :: "(string \<Rightarrow> bool) \<Rightarrow> ((string \<Rightarrow> bool) \<times> param_type) list" where
  "literal_rules numeric =
     [(\<lambda>d. d = ''true'' \<or> d = ''false'', T_boolean),
      (numeric, T_number),
      (is_quoted, T_string),
      (\<lambda>d. startsWith d ''['', T_array),
      (\<lambda>d. startsWith d ''{'', T_object)]"

definition name_rules :: "((string \<Rightarrow> bool) \<times> param_type) list" where
  "name_rules =
     [(\<lambda>n. includes_str n ''count'' \<or> includes_str n ''num'' \<or> includes_str n ''size'', T_number),
      (\<lambda>n. includes_str n ''flag'' \<or> includes_str n ''enable'' \<or> includes_str n ''is'', T_boolean),
      (\<lambda>n. includes_str n ''list'' \<or> includes_str n ''array'', T_array),
      (\<lambda>n. includes_str n ''config'' \<or> includes_str n ''options'', T_object)]"

definition type_by_priority :: "(string \<Rightarrow> bool) \<Rightarrow> string \<Rightarrow> param_type" where
  "type_by_priority numeric token =
     (case (if includes_str token ''='' then first_rule (literal_rules numeric) (default_text token)
            else None) of
        Some t \<Rightarrow> t
      | None \<Rightarrow>
          (case first_rule name_rules (toLowerCase (name_text token)) of
             Some t \<Rightarrow> t
           | None \<Rightarrow> T_string))"

text \<open>
  A numeric literal: a text that denotes a number, so not the empty text. Signed numerals and
  \<open>Infinity\<close> are counted in.
\<close>

definition is_numeric_literal :: "string \<Rightarrow> bool" where
  "is_numeric_literal d = (d \<noteq> [] \<and> number_not_nan d)"

section \<open>An example module\<close>

text \<open>
  A module with seven exported functions, used to run the definitions on concrete input:
  \<open>subtract\<close> returns at once; \<open>chunk\<close> has defaults; \<open>readFile\<close> is asynchronous and
  its promise is fulfilled after ten seconds; \<open>spin\<close> keeps the thread for ten seconds;
  \<open>square\<close> throws an error of its own context on a negative number; the promise of
  \<open>fetch\<close> is rejected with an error of the host after twenty milliseconds; the promise of
  \<open>waitForever\<close> is never settled.
\<close>

definition fn_subtract :: js_function where
  "fn_subtract =
     \<lparr>source = ''function subtract(a, b) { return a - b; }'',
      apply_to = (\<lambda>this vs.
        \<lparr>busy = 0,
         outcome = (case vs of
                      [JNum a, JNum b] \<Rightarrow> Returns (Plain (JNum (a - b)))
                    | _ \<Rightarrow> Returns (Plain JUndefined))\<rparr>)\<rparr>"

definition fn_chunk :: js_function where
  "fn_chunk =
     \<lparr>source = ''function chunk(array = [], size = 2) { return split(array, size); }'',
      apply_to = (\<lambda>this vs. \<lparr>busy = 0, outcome = Returns (Plain (JArr vs))\<rparr>)\<rparr>"

definition fn_readFile :: js_function where
  "fn_readFile =
     \<lparr>source = ''async function readFile(filePath) { return await fs.readFile(filePath); }'',
      apply_to = (\<lambda>this vs.
        \<lparr>busy = 0,
         outcome = Returns (Promise (Settles_after 10000 (Fulfilled (JStr ''contents''))))\<rparr>)\<rparr>"

definition fn_spin :: js_function where
  "fn_spin =
     \<lparr>source = ''function spin() { while (Date.now() < end) {} return 1; }'',
      apply_to = (\<lambda>this vs. \<lparr>busy = 10000, outcome = Returns (Plain (JNum 1))\<rparr>)\<rparr>"

definition fn_square :: js_function where
  "fn_square =
     \<lparr>source = ''function square(side = 1) { if (side < 0) throw new Error(negative); return side * side; }'',
      apply_to = (\<lambda>this vs.
        \<lparr>busy = 0,
         outcome = (case vs of
                      [JNum n] \<Rightarrow>
                        if n < 0 then Throws (Non_error ''Error: Side cannot be negative'')
                        else Returns (Plain (JNum (n * n)))
                    | _ \<Rightarrow> Returns (Plain JUndefined))\<rparr>)\<rparr>"

definition fn_fetch :: js_function where
  "fn_fetch =
     \<lparr>source = ''async function fetch(url) { return await http.get(url); }'',
      apply_to = (\<lambda>this vs.
        \<lparr>busy = 0,
         outcome = Returns (Promise (Settles_after 20 (Rejected (Error_instance ''connection refused''))))\<rparr>)\<rparr>"

definition fn_waitForever :: js_function where
  "fn_waitForever =
     \<lparr>source = ''function waitForever() { return new Promise(() => {}); }'',
      apply_to = (\<lambda>this vs. \<lparr>busy = 0, outcome = Returns (Promise Never_settles)\<rparr>)\<rparr>"

definition example_members :: "(string \<times> export_val) list" where
  "example_members =
     [(''subtract'', Function_value fn_subtract),
      (''chunk'', Function_value fn_chunk),
      (''readFile'', Function_value fn_readFile),
      (''spin'', Function_value fn_spin),
      (''square'', Function_value fn_square),
      (''fetch'', Function_value fn_fetch),
      (''waitForever'', Function_value fn_waitForever)]"

definition example_module :: export_val where
  "example_module = Object_value example_members"

text \<open>
  A module whose one function throws an object without a prototype, and its executor.
\<close>

definition fn_broken :: js_function where
  "fn_broken =
     \<lparr>source = ''function broken() { throw Object.create(null); }'',
      apply_to = (\<lambda>this vs.
        \<lparr>busy = 0,
         outcome = Throws (Unconvertible (Raised_error ''Cannot convert object to primitive value''))\<rparr>)\<rparr>"

definition broken_module :: export_val where
  "broken_module = Object_value [(''broken'', Function_value fn_broken)]"

definition broken_executor :: tool_executor where
  "broken_executor =
     addTools (new_ToolExecutor [] None)
       (case analyzeExports broken_module of Inl e \<Rightarrow> [] | Inr ts \<Rightarrow> ts)"

text \<open>
  Two functions with unusual parameter lists: a parameter named \<open>__proto__\<close>, and a
  default that is an array of two elements.
\<close>

definition fn_proto :: js_function where
  "fn_proto =
     \<lparr>source = ''function f(__proto__, b) {}'',
      apply_to = (\<lambda>this vs. \<lparr>busy = 0, outcome = Returns (Plain JUndefined)\<rparr>)\<rparr>"

definition fn_pair :: js_function where
  "fn_pair =
     \<lparr>source = ''function f(a = [b, a]) {}'',
      apply_to = (\<lambda>this vs. \<lparr>busy = 0, outcome = Returns (Plain JUndefined)\<rparr>)\<rparr>"

text \<open>A module that exports a namespace beside a function.\<close>

definition nested_module :: export_val where
  "nested_module =
     Object_value
       [(''math'', Object_value
           [(''subtract'', Function_value fn_subtract),
            (''pi'', Primitive_value),
            (''helpers'', Array_value [Function_value fn_spin]),
            (''nothing'', Null_value)]),
        (''spin'', Function_value fn_spin)]"

text \<open>The sandbox after it has loaded the module, and its executor (timeout 5000 ms).\<close>

definition example_sandbox :: mcp_sandbox where
  "example_sandbox =
     snd (loadModule
            (new_MCPSandbox \<lparr>port = None, host = None, timeout_ms = None, maxMemory = None\<rparr>)
            (Inr (example_module, [])))"

definition example_executor :: tool_executor where
  "example_executor = (case executor example_sandbox of Some ex \<Rightarrow> ex | None \<Rightarrow> new_ToolExecutor [] None)"

section \<open>Signature inference never raises\<close>

lemma split_on_not_empty: "split_on sep s \<noteq> []"
  by (induction s) (auto split: list.splits)

lemma at_index_0: "at_index (split_on sep s) 0 \<noteq> None"
  using split_on_not_empty [of sep s] by (cases "split_on sep s") auto

lemma startsWith_single: "startsWith s [c] = (\<exists>r. s = c # r)"
  by (cases s) auto

lemma includes_single: "includes_str s [c] = (c \<in> set s)"
  by (induction s) (auto simp: startsWith_single)

lemma split_on_two: "sep \<in> set s \<Longrightarrow> \<exists>p q r. split_on sep s = p # q # r"
proof (induction s)
  case Nil
  then show ?case by simp
next
  case (Cons c cs)
  show ?case
  proof (cases "c = sep")
    case True
    then show ?thesis using split_on_not_empty [of sep cs] by (cases "split_on sep cs") auto
  next
    case False
    with Cons obtain p q r where "split_on sep cs = p # q # r" by auto
    with False show ?thesis by simp
  qed
qed

lemma at_index_1: "sep \<in> set s \<Longrightarrow> at_index (split_on sep s) 1 \<noteq> None"
  using split_on_two [of sep s] by auto

lemma infer_name_part_total: "\<exists>t. infer_name_part p = Inr t"
  using at_index_0 [of "CHR ''=''" p] by (auto simp: infer_name_part_def split: option.splits)

lemma inferParameterType_total: "\<exists>t. inferParameterType p = Inr t"
  using at_index_1 [of "CHR ''=''" p] infer_name_part_total [of p]
  by (auto simp: inferParameterType_def includes_single split: option.splits)

lemma parameter_of_total: "\<exists>d. parameter_of p = Inr d"
  using split_on_not_empty [of "CHR ''=''" p] inferParameterType_total [of p]
  by (auto simp: parameter_of_def split: list.splits sum.splits)

lemma map_raising_total: "(\<And>x. \<exists>y. f x = Inr y) \<Longrightarrow> \<exists>ys. map_raising f xs = Inr ys"
proof (induction xs)
  case Nil
  then show ?case by simp
next
  case (Cons x xs)
  then obtain y ys where "f x = Inr y" "map_raising f xs = Inr ys" by metis
  then show ?case by simp
qed

lemma extractParameters_total: "\<exists>ps. extractParameters s = Inr ps"
  using map_raising_total [of parameter_of, OF parameter_of_total]
  by (auto simp: extractParameters_def split: option.splits)

lemma analyzeFunction_no_parameters:
  "extractParameters (source f) = Inr [] \<Longrightarrow>
   \<exists>tool. analyzeFunction nm f = Inr tool \<and> properties (inputSchema tool) = []
          \<and> required (inputSchema tool) = []"
  by (simp add: analyzeFunction_def generateParameterSchema_def)

text \<open>
  C8. \<open>extractParameters\<close> returns a sequence of descriptors for every source text and
  never raises: the one place that could raise, \<open>.trim()\<close> on the second piece of a token
  split at \<open>=\<close>, is reached only for a token that contains \<open>=\<close>, and such a token
  has a second piece. When the expression matches nowhere, or matches with an empty
  parameter list, the sequence is empty, and \<open>analyzeFunction\<close> then builds a descriptor
  with no properties and nothing required.
\<close>

theorem extractParameters_never_raises:
  "(\<exists>params. extractParameters funcStr = Inr params) \<and>
   (match_parameters funcStr = None \<longrightarrow> extractParameters funcStr = Inr []) \<and>
   (match_parameters funcStr = Some [] \<longrightarrow> extractParameters funcStr = Inr []) \<and>
   (source f = funcStr \<and> extractParameters funcStr = Inr [] \<longrightarrow>
      (\<exists>tool. analyzeFunction nm f = Inr tool \<and> properties (inputSchema tool) = []
              \<and> required (inputSchema tool) = []))"
proof (intro conjI impI)
  show "\<exists>params. extractParameters funcStr = Inr params"
    by (rule extractParameters_total)
next
  assume "match_parameters funcStr = None"
  then show "extractParameters funcStr = Inr []"
    by (simp add: extractParameters_def)
next
  assume "match_parameters funcStr = Some []"
  then show "extractParameters funcStr = Inr []"
    by (simp add: extractParameters_def)
next
  assume "source f = funcStr \<and> extractParameters funcStr = Inr []"
  then show "\<exists>tool. analyzeFunction nm f = Inr tool \<and> properties (inputSchema tool) = []
                   \<and> required (inputSchema tool) = []"
    using analyzeFunction_no_parameters [of f nm] by simp
qed

theorem extractParameters_never_raises_witness:
  "match_parameters ''x => x + 1'' = None \<and>
   extractParameters ''x => x + 1'' = Inr [] \<and>
   match_parameters ''function f() {}'' = Some [] \<and>
   extractParameters ''function f() {}'' = Inr [] \<and>
   (\<exists>tool. analyzeFunction ''f''
              \<lparr>source = ''function f() {}'',
               apply_to = (\<lambda>this vs. \<lparr>busy = 0, outcome = Returns (Plain JUndefined)\<rparr>)\<rparr>
            = Inr tool
          \<and> properties (inputSchema tool) = [] \<and> required (inputSchema tool) = [])"
proof -
  have none: "match_parameters ''x => x + 1'' = None"
    by code_simp
  have empty: "match_parameters ''function f() {}'' = Some []"
    by code_simp
  show ?thesis
    using none empty
      extractParameters_never_raises [of "''x => x + 1''"
        "\<lparr>source = ''function f() {}'',
          apply_to = (\<lambda>this vs. \<lparr>busy = 0, outcome = Returns (Plain JUndefined)\<rparr>)\<rparr>" "''f''"]
      extractParameters_never_raises [of "''function f() {}''"
        "\<lparr>source = ''function f() {}'',
          apply_to = (\<lambda>this vs. \<lparr>busy = 0, outcome = Returns (Plain JUndefined)\<rparr>)\<rparr>" "''f''"]
    by simp
qed

section \<open>The sandbox before a module is loaded\<close>

lemma failed_load_keeps_unloaded:
  "executor sb = None \<Longrightarrow> fst (loadModule sb loaded) = Raises m \<Longrightarrow>
   executor (snd (loadModule sb loaded)) = None"
  by (auto simp: loadModule_def Let_def split: completion.splits prod.splits)

text \<open>
  C9. While no executor is bound (no module has been loaded), \<open>getTools\<close> of the sandbox
  returns the empty list, whereas \<open>executeTool\<close>, \<open>start\<close> and \<open>saveConfig\<close> raise
  \<open>No module loaded. Call loadModule() first.\<close>
\<close>
theorem getTools_before_load:
  "executor sb = None \<Longrightarrow>
     sandbox_getTools sb = [] \<and>
     sandbox_executeTool sb now tn as = Raises ''No module loaded. Call loadModule() first.'' \<and>
     start sb listening = Raises ''No module loaded. Call loadModule() first.'' \<and>
     saveConfig sb default_path write_error outputPath = Raises ''No module loaded. Call loadModule() first.''"
  by (simp add: sandbox_getTools_def sandbox_executeTool_def start_def saveConfig_def no_module_loaded_def)

theorem getTools_before_load_witness:
  "executor (new_MCPSandbox \<lparr>port = None, host = None, timeout_ms = None, maxMemory = None\<rparr>) = None \<and>
   sandbox_getTools (new_MCPSandbox \<lparr>port = None, host = None, timeout_ms = None, maxMemory = None\<rparr>) = [] \<and>
   sandbox_executeTool (new_MCPSandbox \<lparr>port = None, host = None, timeout_ms = None, maxMemory = None\<rparr>)
       0 ''circleArea'' (JObj [(''radius'', JNum 5)])
     = Raises ''No module loaded. Call loadModule() first.'' \<and>
   start (new_MCPSandbox \<lparr>port = None, host = None, timeout_ms = None, maxMemory = None\<rparr>) (Completes ())
     = Raises ''No module loaded. Call loadModule() first.'' \<and>
   saveConfig (new_MCPSandbox \<lparr>port = None, host = None, timeout_ms = None, maxMemory = None\<rparr>)
       ''mcp-config.json'' (\<lambda>path. None) None
     = Raises ''No module loaded. Call loadModule() first.''"
proof -
  have unloaded:
    "executor (new_MCPSandbox \<lparr>port = None, host = None, timeout_ms = None, maxMemory = None\<rparr>) = None"
    by (simp add: new_MCPSandbox_def)
  show ?thesis
    using unloaded
      getTools_before_load [OF unloaded, of 0 "''circleArea''" "JObj [(''radius'', JNum 5)]"
        "Completes ()" "''mcp-config.json''" "\<lambda>path. None" None]
    by simp
qed

section \<open>Unknown methods\<close>

text \<open>
  C7. A request whose method is none of \<open>initialize\<close>, \<open>notifications/initialized\<close>,
  \<open>tools/list\<close>, \<open>tools/call\<close> and \<open>ping\<close> is answered with an error response that
  carries the request's id, the code -32603 and the message \<open>Unknown method: \<close> followed by
  the method (\<open>undefined\<close> when the request has none); the route replies with it and
  broadcasts nothing.
\<close>
theorem unknown_method_error:
  "msg_method message \<notin> {Some ''initialize'', Some ''notifications/initialized'', Some ''tools/list'',
                             Some ''tools/call'', Some ''ping''} \<Longrightarrow>
   handleMCPRequest ex now message =
     Completes \<lparr>response_id = msg_id message,
                body = Error_body (- 32603)
                  (''Unknown method: '' @ (case msg_method message of None \<Rightarrow> ''undefined'' | Some m \<Rightarrow> m))\<rparr>
   \<and> post_jsonrpc ex now message =
     Completes \<lparr>status = 200,
                reply = \<lparr>response_id = msg_id message,
                          body = Error_body (- 32603)
                            (''Unknown method: '' @ (case msg_method message of None \<Rightarrow> ''undefined'' | Some m \<Rightarrow> m))\<rparr>,
                broadcast = False\<rparr>"
  by (cases "msg_method message") (auto simp: handleMCPRequest_def post_jsonrpc_def error_response_def)

theorem unknown_method_error_witness:
  "Some ''resources/list'' \<notin> {Some ''initialize'', Some ''notifications/initialized'', Some ''tools/list'',
                             Some ''tools/call'', Some ''ping''} \<and>
   handleMCPRequest (new_ToolExecutor [] None) 0
     \<lparr>msg_id = Some (Id_number 7), msg_method = Some ''resources/list'', msg_params = JUndefined\<rparr> =
     Completes \<lparr>response_id = Some (Id_number 7),
                body = Error_body (- 32603) ''Unknown method: resources/list''\<rparr>"
proof -
  have unknown: "msg_method \<lparr>msg_id = Some (Id_number 7), msg_method = Some ''resources/list'', msg_params = JUndefined\<rparr>
      \<notin> {Some ''initialize'', Some ''notifications/initialized'', Some ''tools/list'',
                             Some ''tools/call'', Some ''ping''}"
    by simp
  show ?thesis
    using unknown_method_error [OF unknown, of "new_ToolExecutor [] None" 0]
    by simp
qed

section \<open>The generated schema\<close>

lemma find_append_case:
  "find P (xs @ ys) = (case find P xs of None \<Rightarrow> find P ys | Some x \<Rightarrow> Some x)"
  by (induction xs) auto

lemma insert_index_lookup:
  "map_of obj k = None \<Longrightarrow> map_of (insert_index n k v obj) x = ((map_of obj)(k \<mapsto> v)) x"
proof (induction obj)
  case Nil
  then show ?case by simp
next
  case (Cons kv obj)
  obtain k' v' where kv: "kv = (k', v')" by (cases kv)
  with Cons.prems have ne: "k' \<noteq> k" and rest: "map_of obj k = None"
    by (auto split: if_splits)
  show ?case
    using Cons.IH [OF rest] ne by (auto simp: kv split: option.splits)
qed

lemma insert_index_keys:
  "fst ` set (insert_index n k v obj) = insert k (fst ` set obj)"
proof (induction obj)
  case Nil
  then show ?case by simp
next
  case (Cons kv obj)
  obtain k' v' where kv: "kv = (k', v')" by (cases kv)
  show ?case
  proof (cases "array_index k'")
    case None
    then show ?thesis by (simp add: kv)
  next
    case (Some m)
    then show ?thesis using Cons.IH by (cases "m < n") (auto simp: kv)
  qed
qed

lemma set_property_lookup:
  "map_of (set_property k v obj) x =
     (if k = ''__proto__'' then map_of obj x else ((map_of obj)(k \<mapsto> v)) x)"
proof (cases "k = ''__proto__''")
  case True
  then show ?thesis by (simp add: set_property_def)
next
  case False
  show ?thesis
  proof (cases "map_of obj k")
    case None
    then show ?thesis
      using False insert_index_lookup [OF None]
      by (auto simp: set_property_def map_add_def split: option.splits)
  next
    case (Some e)
    then show ?thesis
      using False by (simp add: set_property_def AList.update_conv')
  qed
qed

lemma set_property_keys:
  "fst ` set (set_property k v obj) =
     (if k = ''__proto__'' then fst ` set obj else insert k (fst ` set obj))"
  by (auto simp: set_property_def insert_index_keys AList.dom_update split: option.splits)

lemma schema_loop_lookup:
  "map_of (schema_loop params schema) n =
     (if n = ''__proto__'' then map_of schema n
      else (case find (\<lambda>p. pname p = n) (rev params) of
              None \<Rightarrow> map_of schema n
            | Some p \<Rightarrow> Some (schema_entry_of p)))"
proof (induction params arbitrary: schema)
  case Nil
  then show ?case by simp
next
  case (Cons q params)
  show ?case
    by (simp add: Cons.IH set_property_lookup find_append_case split: option.splits)
qed

lemma schema_loop_keys:
  "fst ` set (schema_loop params schema) = fst ` set schema \<union> (pname ` set params - {''__proto__''})"
  by (induction params arbitrary: schema) (auto simp: set_property_keys)

lemma schema_entry_items:
  "entry_type (schema_entry_of p) = ptype p \<and>
   items (schema_entry_of p) = (if ptype p = T_array then Some (Items_of_type ''string'') else None)"
  by (simp add: schema_entry_of_def)

lemma generateParameterSchema_lookup:
  "map_of (generateParameterSchema params) n =
     (if n = ''__proto__'' then None
      else map_option schema_entry_of (find (\<lambda>q. pname q = n) (rev params)))"
  by (simp add: generateParameterSchema_def schema_loop_lookup split: option.splits)

text \<open>
  C10, as amended. The schema entry generated for a parameter has the parameter's inferred
  type, and it has \<open>items\<close> of type \<open>string\<close> exactly when that type is \<open>array\<close>. The
  schema holds no entry under \<open>__proto__\<close>, and under every other name the entry generated
  for the last parameter of that name.
\<close>

theorem schema_entries_last_wins:
  "(entry_type (schema_entry_of p) = ptype p \<and>
    items (schema_entry_of p) = (if ptype p = T_array then Some (Items_of_type ''string'') else None)) \<and>
   map_of (generateParameterSchema params) n =
     (if n = ''__proto__'' then None
      else map_option schema_entry_of (find (\<lambda>q. pname q = n) (rev params)))"
  by (simp add: schema_entry_items generateParameterSchema_lookup)

text \<open>
  The parameter list of \<open>function f(a = [b, a]) {}\<close> is read as two parameters named
  \<open>a\<close>, the first of type array, the second of type string. The schema keeps the entry of
  the second: the array parameter's entry under \<open>a\<close> has no \<open>items\<close>.
\<close>

lemma pair_parameters:
  "map_sum id (map (\<lambda>p. (pname p, hasDefault p, ptype p))) (extractParameters (source fn_pair))
     = Inr [(''a'', True, T_array), (''a'', False, T_string)]"
  by code_simp

theorem repeated_name_counterexample:
  "\<exists>params p e. extractParameters (source fn_pair) = Inr params \<and> p \<in> set params \<and>
     ptype p = T_array \<and>
     map_of (generateParameterSchema params) (pname p) = Some e \<and> items e = None"
proof -
  from pair_parameters obtain p1 p2 where
    ps: "extractParameters (source fn_pair) = Inr [p1, p2]"
    and p1: "pname p1 = ''a''" "ptype p1 = T_array"
    and p2: "pname p2 = ''a''" "ptype p2 = T_string"
    by (cases "extractParameters (source fn_pair)") auto
  have "map_of (generateParameterSchema [p1, p2]) (pname p1) = Some (schema_entry_of p2)"
    by (simp add: generateParameterSchema_lookup p1 p2)
  moreover have "items (schema_entry_of p2) = None"
    by (simp add: schema_entry_of_def p2)
  ultimately show ?thesis
    using ps p1 by (intro exI [of _ "[p1, p2]"] exI [of _ p1] exI [of _ "schema_entry_of p2"]) simp
qed

section \<open>Descriptors produced by reflection\<close>

lemma analyzeFunction_descriptor:
  "analyzeFunction nm f = Inr tool \<Longrightarrow>
   \<exists>params. extractParameters (source f) = Inr params \<and> name tool = nm \<and> handler tool = f \<and>
     properties (inputSchema tool) = generateParameterSchema params \<and>
     required (inputSchema tool) = map pname (filter (\<lambda>p. \<not> hasDefault p) params)"
  by (auto simp: analyzeFunction_def Let_def split: sum.splits)

lemma traverse_tools:
  "traverse members prefix acc = Inr ts \<Longrightarrow> t \<in> set ts \<Longrightarrow>
   t \<in> set acc \<or> (\<exists>nm f. analyzeFunction nm f = Inr t)"
proof (induction members prefix acc arbitrary: ts rule: traverse.induct)
  case (1 prefix tools)
  then show ?case by simp
next
  case (2 key f rest prefix tools)
  then show ?case by (fastforce split: sum.splits)
next
  case (3 key obj rest prefix tools)
  then show ?case by (fastforce split: sum.splits)
qed auto

lemma analyzeExports_tools:
  "analyzeExports exports = Inr ts \<Longrightarrow> t \<in> set ts \<Longrightarrow> \<exists>nm f. analyzeFunction nm f = Inr t"
proof (cases exports)
  case (Function_value f)
  assume "analyzeExports exports = Inr ts" "t \<in> set ts"
  with Function_value have "analyzeFunction ''default'' f = Inr t"
    by (auto simp: analyzeExports_def split: sum.splits)
  then show ?thesis by blast
qed (auto simp: analyzeExports_def dest: traverse_tools)

lemma generateParameterSchema_keys:
  "fst ` set (generateParameterSchema params) = pname ` set params - {''__proto__''}"
  by (simp add: generateParameterSchema_def schema_loop_keys)

text \<open>
  C4. Every descriptor that the walk over the exports produces is built from the parameters
  read off the source text of its handler: \<open>required\<close> lists the names of the parameters
  without a default, \<open>properties\<close> is the schema generated from the parameters, whose keys
  are the names of the parameters other than \<open>__proto__\<close>; so every name in \<open>required\<close>
  other than \<open>__proto__\<close> is a key of \<open>properties\<close>. With no parameters both are empty.
\<close>

theorem required_within_properties_except_proto:
  "analyzeExports exports = Inr ts \<Longrightarrow> tool \<in> set ts \<Longrightarrow>
   (\<exists>params. extractParameters (source (handler tool)) = Inr params \<and>
      properties (inputSchema tool) = generateParameterSchema params \<and>
      required (inputSchema tool) = map pname (filter (\<lambda>p. \<not> hasDefault p) params) \<and>
      fst ` set (properties (inputSchema tool)) = pname ` set params - {''__proto__''} \<and>
      (params = [] \<longrightarrow> properties (inputSchema tool) = [] \<and> required (inputSchema tool) = [])) \<and>
   set (required (inputSchema tool)) - {''__proto__''} \<subseteq> fst ` set (properties (inputSchema tool))"
proof -
  assume "analyzeExports exports = Inr ts" "tool \<in> set ts"
  then obtain nm f where "analyzeFunction nm f = Inr tool"
    using analyzeExports_tools by blast
  then obtain params where p: "extractParameters (source f) = Inr params" "handler tool = f"
      "properties (inputSchema tool) = generateParameterSchema params"
      "required (inputSchema tool) = map pname (filter (\<lambda>p. \<not> hasDefault p) params)"
    using analyzeFunction_descriptor by blast
  have keys: "fst ` set (properties (inputSchema tool)) = pname ` set params - {''__proto__''}"
    using p(3) by (simp add: generateParameterSchema_keys)
  have "set (required (inputSchema tool)) - {''__proto__''} \<subseteq> fst ` set (properties (inputSchema tool))"
    unfolding keys p(4) by auto
  moreover have "params = [] \<longrightarrow> properties (inputSchema tool) = [] \<and> required (inputSchema tool) = []"
    using p(3,4) by (simp add: generateParameterSchema_def)
  ultimately show ?thesis
    using p keys by auto
qed

theorem required_within_properties_except_proto_witness:
  "\<exists>ts tool. analyzeExports example_module = Inr ts \<and> tool \<in> set ts \<and>
     name tool = ''subtract'' \<and>
     required (inputSchema tool) = [''a'', ''b''] \<and>
     map fst (properties (inputSchema tool)) = [''a'', ''b''] \<and>
     set (required (inputSchema tool)) - {''__proto__''} \<subseteq> fst ` set (properties (inputSchema tool))"
proof -
  have "map_sum id (map (\<lambda>t. (name t, required (inputSchema t), map fst (properties (inputSchema t)))))
          (analyzeExports example_module)
        = Inr [(''subtract'', [''a'', ''b''], [''a'', ''b'']),
               (''chunk'', [], [''array'', ''size'']),
               (''readFile'', [''filePath''], [''filePath'']),
               (''spin'', [], []),
               (''square'', [], [''side'']),
               (''fetch'', [''url''], [''url'']),
               (''waitForever'', [], [])]"
    by code_simp
  then obtain t1 t2 t3 t4 t5 t6 t7 where ts: "analyzeExports example_module = Inr [t1, t2, t3, t4, t5, t6, t7]"
    and t1: "name t1 = ''subtract''" "required (inputSchema t1) = [''a'', ''b'']"
            "map fst (properties (inputSchema t1)) = [''a'', ''b'']"
    by (cases "analyzeExports example_module") auto
  have "t1 \<in> set [t1, t2, t3, t4, t5, t6, t7]"
    by simp
  from required_within_properties_except_proto [OF ts this] ts t1 show ?thesis
    by (intro exI [of _ "[t1, t2, t3, t4, t5, t6, t7]"] exI [of _ t1]) simp
qed

text \<open>
  For \<open>function f(__proto__, b) {}\<close> both parameters are required, and the schema has the
  one key \<open>b\<close>: the name \<open>__proto__\<close> is in \<open>required\<close> and is no key of
  \<open>properties\<close>.
\<close>

lemma proto_descriptor:
  "map_sum id (map (\<lambda>t. (required (inputSchema t), map fst (properties (inputSchema t)))))
     (analyzeExports (Object_value [(''f'', Function_value fn_proto)]))
   = Inr [([''__proto__'', ''b''], [''b''])]"
  by code_simp

theorem proto_parameter_counterexample:
  "\<exists>tool. analyzeExports (Object_value [(''f'', Function_value fn_proto)]) = Inr [tool] \<and>
     required (inputSchema tool) = [''__proto__'', ''b''] \<and>
     map fst (properties (inputSchema tool)) = [''b''] \<and>
     \<not> set (required (inputSchema tool)) \<subseteq> fst ` set (properties (inputSchema tool))"
proof -
  from proto_descriptor obtain tool where
    t: "analyzeExports (Object_value [(''f'', Function_value fn_proto)]) = Inr [tool]"
      "required (inputSchema tool) = [''__proto__'', ''b'']"
      "map fst (properties (inputSchema tool)) = [''b'']"
    by (cases "analyzeExports (Object_value [(''f'', Function_value fn_proto)])") auto
  have "fst ` set (properties (inputSchema tool)) = {''b''}"
    using t(3) by (metis list.set_map list.simps(15) empty_set)
  with t show ?thesis
    by simp
qed

section \<open>The priority of the inference rules\<close>

lemma split_on_head:
  "split_on sep s =
     takeWhile (\<lambda>c. c \<noteq> sep) s #
       (case dropWhile (\<lambda>c. c \<noteq> sep) s of [] \<Rightarrow> [] | c # r \<Rightarrow> split_on sep r)"
  by (induction s) (auto split: list.splits)

lemma first_piece: "at_index (split_on sep s) 0 = Some (takeWhile (\<lambda>c. c \<noteq> sep) s)"
  by (subst split_on_head) simp

lemma second_piece:
  "sep \<in> set s \<Longrightarrow>
   at_index (split_on sep s) (Suc 0) =
     Some (takeWhile (\<lambda>c. c \<noteq> sep) (drop (Suc 0) (dropWhile (\<lambda>c. c \<noteq> sep) s)))"
proof (induction s)
  case Nil
  then show ?case by simp
next
  case (Cons c cs)
  show ?case
  proof (cases "c = sep")
    case True
    then show ?thesis by (simp add: first_piece)
  next
    case False
    with Cons.prems have "sep \<in> set cs" by simp
    from Cons.IH [OF this] False show ?thesis
      by (cases "split_on sep cs") simp_all
  qed
qed

lemma infer_name_part_rules:
  "infer_name_part token =
     Inr (case first_rule name_rules (toLowerCase (name_text token)) of Some t \<Rightarrow> t | None \<Rightarrow> T_string)"
  by (simp add: infer_name_part_def first_piece name_text_def name_rules_def infer_from_name_def)

lemma infer_from_default_rules:
  "infer_from_default d = first_rule (literal_rules number_not_nan) d"
  by (simp add: infer_from_default_def literal_rules_def is_quoted_def)

text \<open>
  C5, as amended. For every parameter token the inferred type is the one the first applicable
  rule gives: for a token with a default, by the default text, \<open>true\<close> or \<open>false\<close>
  is boolean, a text that \<open>Number\<close> converts to a number (and not to NaN) is number,
  which includes the empty text, a text that starts with a quote is string, with \<open>[\<close>
  array, with \<open>{\<close> object; if none of these applies, or the token has no default, the
  lower-cased name decides by the substring rules in their order; otherwise string.
\<close>

theorem inferParameterType_priority:
  "inferParameterType token = Inr (type_by_priority number_not_nan token)"
proof (cases "includes_str token ''=''")
  case True
  then have "CHR ''='' \<in> set token"
    by (simp add: includes_single)
  then show ?thesis
    using True
    by (simp add: inferParameterType_def type_by_priority_def second_piece default_text_def
        infer_from_default_rules infer_name_part_rules split: option.split)
next
  case False
  then show ?thesis
    by (simp add: inferParameterType_def type_by_priority_def infer_name_part_rules)
qed

text \<open>
  The token \<open>a === b\<close>, which is what the expression reads as the parameter list of the arrow
  function \<open>(a, b) => (a === b)\<close>, has the empty default text: no numeric literal, yet the
  inferred type is number, where the name \<open>a\<close> would give string.
\<close>

lemma triple_equals_inferred: "inferParameterType ''a === b'' = Inr T_number"
  by code_simp

lemma triple_equals_texts:
  "default_text ''a === b'' = [] \<and> toLowerCase (name_text ''a === b'') = ''a''"
  by code_simp

lemma triple_equals_by_literal: "type_by_priority is_numeric_literal ''a === b'' = T_string"
  by (simp add: type_by_priority_def triple_equals_texts name_rules_def literal_rules_def
      is_numeric_literal_def is_quoted_def)

lemma triple_equals_arrow:
  "map_sum id (map (\<lambda>p. (pname p, hasDefault p, ptype p))) (extractParameters ''(a, b) => (a === b)'')
     = Inr [(''a'', True, T_number)]"
  by code_simp

theorem empty_default_counterexample:
  "\<not> (inferParameterType ''a === b'' = Inr (type_by_priority is_numeric_literal ''a === b''))"
  unfolding triple_equals_inferred triple_equals_by_literal by simp

section \<open>The walk over the exports\<close>

lemma analyzeFunction_total:
  "\<exists>tool. analyzeFunction nm f = Inr tool \<and> name tool = nm \<and> handler tool = f"
  using extractParameters_total [of "source f"]
  by (auto simp: analyzeFunction_def Let_def)

lemma traverse_members:
  "\<exists>ts. traverse members prefix acc = Inr (acc @ ts) \<and>
        list_all2 (\<lambda>t (n, g). analyzeFunction n g = Inr t \<and> name t = n \<and> handler t = g)
          ts (callable_members prefix members)"
proof (induction members prefix acc rule: traverse.induct)
  case (1 prefix tools)
  then show ?case by simp
next
  case (2 key f rest prefix tools)
  obtain tool where tool: "analyzeFunction (tool_name prefix key) f = Inr tool"
      "name tool = tool_name prefix key" "handler tool = f"
    using analyzeFunction_total by blast
  from 2 [OF tool(1)] obtain ts where
    "traverse rest prefix (tools @ [tool]) = Inr ((tools @ [tool]) @ ts)"
    "list_all2 (\<lambda>t (n, g). analyzeFunction n g = Inr t \<and> name t = n \<and> handler t = g)
       ts (callable_members prefix rest)"
    by blast
  with tool show ?case
    by (intro exI [of _ "tool # ts"]) simp
next
  case (3 key obj rest prefix tools)
  from 3(1) obtain ts1 where ts1:
    "traverse obj (tool_name prefix key) tools = Inr (tools @ ts1)"
    "list_all2 (\<lambda>t (n, g). analyzeFunction n g = Inr t \<and> name t = n \<and> handler t = g)
       ts1 (callable_members (tool_name prefix key) obj)"
    by blast
  from 3(2) [OF ts1(1)] obtain ts2 where ts2:
    "traverse rest prefix (tools @ ts1) = Inr ((tools @ ts1) @ ts2)"
    "list_all2 (\<lambda>t (n, g). analyzeFunction n g = Inr t \<and> name t = n \<and> handler t = g)
       ts2 (callable_members prefix rest)"
    by blast
  from ts1 ts2 show ?case
    by (intro exI [of _ "ts1 @ ts2"]) (simp add: list_all2_appendI)
qed simp_all

text \<open>
  C6. A callable export is registered itself, as the one tool \<open>default\<close>. For an aggregate
  export the walk registers exactly the callables of \<open>callable_members\<close>, in their order:
  each callable member under its key, joined by an underscore to the prefix of the aggregate
  it is a member of (at the top level, where the prefix is empty, under the key alone);
  scalar, \<open>null\<close> and array members add nothing; the members of a nested object are walked
  with that member's name as their prefix.
\<close>

theorem exports_walk:
  "(\<exists>tool. analyzeExports (Function_value f) = Inr [tool] \<and> name tool = ''default'' \<and> handler tool = f) \<and>
   (\<exists>ts. analyzeExports (Object_value members) = Inr ts \<and>
      list_all2 (\<lambda>t (n, g). analyzeFunction n g = Inr t \<and> name t = n \<and> handler t = g)
        ts (callable_members [] members)) \<and>
   tool_name [] key = key \<and>
   (prefix \<noteq> [] \<longrightarrow> tool_name prefix key = prefix @ ''_'' @ key)"
proof (intro conjI impI)
  show "\<exists>tool. analyzeExports (Function_value f) = Inr [tool] \<and> name tool = ''default'' \<and> handler tool = f"
    using analyzeFunction_total [of "''default''" f] by (auto simp: analyzeExports_def)
  show "\<exists>ts. analyzeExports (Object_value members) = Inr ts \<and>
      list_all2 (\<lambda>t (n, g). analyzeFunction n g = Inr t \<and> name t = n \<and> handler t = g)
        ts (callable_members [] members)"
    using traverse_members [of members "[]" "[]"] by (simp add: analyzeExports_def)
  show "tool_name [] key = key"
    by (simp add: tool_name_def)
  show "tool_name prefix key = prefix @ ''_'' @ key" if "prefix \<noteq> []"
    using that by (simp add: tool_name_def)
qed

lemma nested_callables:
  "callable_members [] [(''math'', Object_value
           [(''subtract'', Function_value fn_subtract),
            (''pi'', Primitive_value),
            (''helpers'', Array_value [Function_value fn_spin]),
            (''nothing'', Null_value)]),
        (''spin'', Function_value fn_spin)]
   = [(''math_subtract'', fn_subtract), (''spin'', fn_spin)]"
  by (simp add: tool_name_def)

theorem exports_walk_witness:
  "''math'' \<noteq> [] \<and> tool_name ''math'' ''subtract'' = ''math_subtract'' \<and>
   (\<exists>ts. analyzeExports nested_module = Inr ts \<and> map name ts = [''math_subtract'', ''spin''] \<and>
         map handler ts = [fn_subtract, fn_spin]) \<and>
   (\<exists>tool. analyzeExports (Function_value fn_spin) = Inr [tool] \<and> name tool = ''default'')"
proof -
  have ne: "''math'' \<noteq> []"
    by simp
  from exports_walk [of fn_spin _ "''subtract''" "''math''"] ne
  have 1: "tool_name ''math'' ''subtract'' = ''math_subtract''"
    and 2: "\<exists>tool. analyzeExports (Function_value fn_spin) = Inr [tool] \<and> name tool = ''default''"
    by auto
  from exports_walk [of fn_spin "[(''math'', Object_value
           [(''subtract'', Function_value fn_subtract),
            (''pi'', Primitive_value),
            (''helpers'', Array_value [Function_value fn_spin]),
            (''nothing'', Null_value)]),
        (''spin'', Function_value fn_spin)]" "''subtract''" "''math''"]
  obtain ts where ts: "analyzeExports nested_module = Inr ts"
    "list_all2 (\<lambda>t (n, g). analyzeFunction n g = Inr t \<and> name t = n \<and> handler t = g)
        ts [(''math_subtract'', fn_subtract), (''spin'', fn_spin)]"
    unfolding nested_callables nested_module_def by blast
  from ts(2) have "map name ts = [''math_subtract'', ''spin''] \<and> map handler ts = [fn_subtract, fn_spin]"
    by (auto simp: list_all2_Cons2)
  with ts(1) 1 2 show ?thesis
    by auto
qed

section \<open>What a call of \<open>executeTool\<close> does\<close>

text \<open>
  The function given to \<open>new Promise\<close> clears the timer on every path before it returns,
  so the timer is never armed while the promise is awaited.
\<close>

lemma promise_executor_timer: "timer (promise_executor ex tool as st) = None"
  by (auto simp: promise_executor_def Let_def settle_def clearTimeout_def
      split: sum.splits sync_outcome.splits returned.splits option.splits)

lemma await_promise_disarmed:
  "timer st = None \<Longrightarrow> await_promise st = Some st' \<Longrightarrow> settled st' \<noteq> None \<and> effects st' = effects st"
  by (auto simp: await_promise_def settle_def split: option.splits promise.splits)

lemma execution_result_of_effects:
  "\<exists>tail. snd (execution_result_of tn t0 st) = effects st @ tail \<and>
          (tail = [] \<or> (\<exists>t. tail = [Date_now t]))"
  by (auto simp: execution_result_of_def split: option.splits settlement.splits sum.splits)

lemma promise_executor_effects:
  "effects (promise_executor ex tool as st) =
     (case Object_values as of
        Inl e \<Rightarrow> effects st @ [Set_timeout (timeout ex), Clear_timeout]
      | Inr vs \<Rightarrow> effects st @ [Set_timeout (timeout ex), Handler_apply vs, Clear_timeout])"
  by (auto simp: promise_executor_def Let_def settle_def clearTimeout_def setTimeout_def
      split: sum.splits sync_outcome.splits returned.splits option.splits)

lemma executeTool_effects:
  assumes t: "getTool ex tn = Some tool"
  shows "\<exists>tail. snd (executeTool ex now tn as) =
           (case Object_values (default_args as) of
              Inl e \<Rightarrow> [Date_now now, Set_timeout (timeout ex), Clear_timeout]
            | Inr vs \<Rightarrow> [Date_now now, Set_timeout (timeout ex), Handler_apply vs, Clear_timeout]) @ tail
           \<and> (tail = [] \<or> (\<exists>t. tail = [Date_now t]))"
proof -
  let ?st = "promise_executor ex tool (default_args as)
               \<lparr>clock = now, timer = None, settled = None, chained = None, effects = [Date_now now]\<rparr>"
  have eff: "effects ?st =
     (case Object_values (default_args as) of
        Inl e \<Rightarrow> [Date_now now, Set_timeout (timeout ex), Clear_timeout]
      | Inr vs \<Rightarrow> [Date_now now, Set_timeout (timeout ex), Handler_apply vs, Clear_timeout])"
    by (simp add: promise_executor_effects split: sum.splits)
  show ?thesis
  proof (cases "await_promise ?st")
    case None
    with t eff show ?thesis by (simp add: executeTool_def Let_def)
  next
    case (Some st')
    then have s: "effects st' = effects ?st"
      using await_promise_disarmed [OF promise_executor_timer] by blast
    from execution_result_of_effects [of tn now st'] obtain tail where
      "snd (execution_result_of tn now st') = effects st' @ tail" "tail = [] \<or> (\<exists>t. tail = [Date_now t])"
      by blast
    with t Some s eff show ?thesis by (simp add: executeTool_def Let_def)
  qed
qed

lemma timer_never_fires: "Timer_fired \<notin> set (snd (executeTool ex now tn as))"
proof (cases "getTool ex tn")
  case None
  then show ?thesis by (simp add: executeTool_def Let_def)
next
  case (Some tool)
  from executeTool_effects [OF Some, of now as] show ?thesis
    by (auto split: sum.splits)
qed


lemma executeTool_outcome:
  assumes "getTool ex tn = Some tool" "Object_values (default_args as) = Inr vs"
  shows "fst (executeTool ex now tn as) =
           completion_of_run tn (apply_to (handler tool) (execution_context_of ex (default_args as)) vs)"
  using assms
  by (simp add: executeTool_def promise_executor_def Let_def setTimeout_def clearTimeout_def
      settle_def await_promise_def execution_result_of_def completion_of_run_def
      split: sync_outcome.split returned.split promise.split settlement.split)

lemma Object_values_error:
  "Object_values v = Inl e \<Longrightarrow> e = Error_instance ''Cannot convert undefined or null to object''"
  by (cases v) (simp_all add: Object_values_def)

lemma executeTool_bad_args:
  assumes "getTool ex tn = Some tool" "Object_values (default_args as) = Inl e"
  shows "fst (executeTool ex now tn as) =
           Completes \<lparr>success = False, result = None,
                      error = Some ''Cannot convert undefined or null to object'', toolName = tn,
                      executionTime = 0\<rparr>"
  using assms Object_values_error [OF assms(2)]
  by (simp add: executeTool_def promise_executor_def Let_def setTimeout_def clearTimeout_def
      settle_def await_promise_def execution_result_of_def failure_result_def error_message_def)

lemma failure_result_raises:
  "raises_outward (failure_result tn t e) = (\<exists>r. e = Unconvertible r)"
  by (cases e) (auto simp: failure_result_def error_message_def raises_outward_def split: raised.splits)

lemma raises_outward_simps:
  "raises_outward (Raises m) = True" "raises_outward Raises_other = True"
  "raises_outward (Completes x) = False" "raises_outward Never_completes = False"
  by (simp_all add: raises_outward_def)

lemma completion_of_run_raises:
  "raises_outward (completion_of_run tn run) = (\<exists>r. failure_of run = Some (Unconvertible r))"
  by (simp add: completion_of_run_def failure_of_def failure_result_raises raises_outward_simps
      split: sync_outcome.split returned.split promise.split settlement.split)

lemma completion_of_run_failure:
  "failure_of run = Some e \<Longrightarrow> error_message e = Inr m \<Longrightarrow>
   \<exists>t. completion_of_run tn run =
          Completes \<lparr>success = False, result = None, error = Some m, toolName = tn, executionTime = t\<rparr>"
  by (auto simp: completion_of_run_def failure_of_def failure_result_def
      split: sync_outcome.splits returned.splits promise.splits settlement.splits)

lemma broken_registry:
  "\<exists>tool. getTool broken_executor ''broken'' = Some tool \<and> handler tool = fn_broken"
proof -
  from traverse_members [of "[(''broken'', Function_value fn_broken)]" "[]" "[]"]
  obtain tool where "analyzeExports broken_module = Inr [tool]" "name tool = ''broken''"
    "handler tool = fn_broken"
    by (auto simp: analyzeExports_def broken_module_def tool_name_def list_all2_Cons2)
  then show ?thesis
    by (simp add: broken_executor_def addTools_def addTool_def new_ToolExecutor_def getTool_def)
qed

subsection \<open>The registry of the example\<close>

lemma example_callables:
  "callable_members [] example_members =
     [(''subtract'', fn_subtract), (''chunk'', fn_chunk), (''readFile'', fn_readFile),
      (''spin'', fn_spin), (''square'', fn_square), (''fetch'', fn_fetch),
      (''waitForever'', fn_waitForever)]"
  by (simp add: example_members_def tool_name_def)

lemma example_tools:
  "\<exists>t1 t2 t3 t4 t5 t6 t7.
     analyzeExports example_module = Inr [t1, t2, t3, t4, t5, t6, t7] \<and>
     analyzeFunction ''subtract'' fn_subtract = Inr t1 \<and>
     name t1 = ''subtract'' \<and> handler t1 = fn_subtract \<and>
     name t2 = ''chunk'' \<and> handler t2 = fn_chunk \<and>
     name t3 = ''readFile'' \<and> handler t3 = fn_readFile \<and>
     name t4 = ''spin'' \<and> handler t4 = fn_spin \<and>
     name t5 = ''square'' \<and> handler t5 = fn_square \<and>
     name t6 = ''fetch'' \<and> handler t6 = fn_fetch \<and>
     name t7 = ''waitForever'' \<and> handler t7 = fn_waitForever"
proof -
  from traverse_members [of example_members "[]" "[]"]
  obtain ts where ts: "analyzeExports example_module = Inr ts"
    "list_all2 (\<lambda>t (n, g). analyzeFunction n g = Inr t \<and> name t = n \<and> handler t = g)
       ts (callable_members [] example_members)"
    by (auto simp: analyzeExports_def example_module_def)
  from ts(2) obtain t1 t2 t3 t4 t5 t6 t7 where
    "ts = [t1, t2, t3, t4, t5, t6, t7]"
     "analyzeFunction ''subtract'' fn_subtract = Inr t1"
     "name t1 = ''subtract'' \<and> handler t1 = fn_subtract"
     "name t2 = ''chunk'' \<and> handler t2 = fn_chunk"
     "name t3 = ''readFile'' \<and> handler t3 = fn_readFile"
     "name t4 = ''spin'' \<and> handler t4 = fn_spin"
     "name t5 = ''square'' \<and> handler t5 = fn_square"
     "name t6 = ''fetch'' \<and> handler t6 = fn_fetch"
     "name t7 = ''waitForever'' \<and> handler t7 = fn_waitForever"
    unfolding example_callables by (auto simp: list_all2_Cons2)
  with ts(1) show ?thesis by blast
qed

lemma example_executor_registry:
  "timeout example_executor = 5000 \<and> vm_context example_executor = [] \<and>
   (\<exists>tool. getTool example_executor ''subtract'' = Some tool \<and> handler tool = fn_subtract \<and>
      analyzeFunction ''subtract'' fn_subtract = Inr tool) \<and>
   (\<exists>tool. getTool example_executor ''chunk'' = Some tool \<and> handler tool = fn_chunk) \<and>
   (\<exists>tool. getTool example_executor ''readFile'' = Some tool \<and> handler tool = fn_readFile) \<and>
   (\<exists>tool. getTool example_executor ''spin'' = Some tool \<and> handler tool = fn_spin) \<and>
   (\<exists>tool. getTool example_executor ''square'' = Some tool \<and> handler tool = fn_square) \<and>
   (\<exists>tool. getTool example_executor ''fetch'' = Some tool \<and> handler tool = fn_fetch) \<and>
   (\<exists>tool. getTool example_executor ''waitForever'' = Some tool \<and> handler tool = fn_waitForever) \<and>
   getTool example_executor ''missing'' = None"
proof -
  from example_tools obtain t1 t2 t3 t4 t5 t6 t7 where
    ts: "analyzeExports example_module = Inr [t1, t2, t3, t4, t5, t6, t7]"
    and n: "name t1 = ''subtract''" "name t2 = ''chunk''" "name t3 = ''readFile''" "name t4 = ''spin''"
      "name t5 = ''square''" "name t6 = ''fetch''" "name t7 = ''waitForever''"
    and h: "handler t1 = fn_subtract" "handler t2 = fn_chunk" "handler t3 = fn_readFile"
      "handler t4 = fn_spin" "handler t5 = fn_square" "handler t6 = fn_fetch"
      "handler t7 = fn_waitForever"
    and a: "analyzeFunction ''subtract'' fn_subtract = Inr t1"
    by blast
  have ex: "example_executor = addTools (new_ToolExecutor [] None) [t1, t2, t3, t4, t5, t6, t7]"
    by (simp add: example_executor_def example_sandbox_def loadModule_def reflectModule_def ts Let_def)
  have "tools example_executor =
          [(''subtract'', t1), (''chunk'', t2), (''readFile'', t3), (''spin'', t4),
           (''square'', t5), (''fetch'', t6), (''waitForever'', t7)]"
    by (simp add: ex addTools_def addTool_def new_ToolExecutor_def n)
  moreover have "timeout example_executor = 5000 \<and> vm_context example_executor = []"
    by (simp add: ex addTools_def addTool_def new_ToolExecutor_def)
  ultimately show ?thesis
    using h a by (simp add: getTool_def)
qed

subsection \<open>Raising and returning\<close>

text \<open>
  C3. \<open>executeTool\<close> raises if and only if the name is not in the registry, or the handler
  of the registered tool throws, or its promise is rejected with, a value on which
  \<open>error instanceof Error ? error.message : String(error)\<close> itself raises: the \<open>catch\<close>
  that should turn every failure into a result evaluates this expression unguarded. When the
  name is not in the registry nothing has happened yet: no effect, so no time stamp was taken.
  A handler that throws any other value, and a handler whose promise is rejected with any other
  value, make it return a result with \<open>success\<close> false and the text of the error.
\<close>

theorem executeTool_raises_when:
  "(raises_outward (fst (executeTool ex now tn as)) =
      (getTool ex tn = None \<or>
       (\<exists>tool vs r. getTool ex tn = Some tool \<and> Object_values (default_args as) = Inr vs \<and>
          failure_of (apply_to (handler tool) (execution_context_of ex (default_args as)) vs)
            = Some (Unconvertible r)))) \<and>
   (getTool ex tn = None \<longrightarrow>
      executeTool ex now tn as = (Raises (''Tool '' @ [CHR 0x27] @ tn @ [CHR 0x27] @ '' not found''), [])) \<and>
   (getTool ex tn = Some tool \<and> Object_values (default_args as) = Inr vs \<and>
    failure_of (apply_to (handler tool) (execution_context_of ex (default_args as)) vs) = Some e \<and>
    error_message e = Inr m \<longrightarrow>
      (\<exists>t. fst (executeTool ex now tn as) =
             Completes \<lparr>success = False, result = None, error = Some m, toolName = tn,
                        executionTime = t\<rparr>))"
proof (intro conjI impI)
  show "raises_outward (fst (executeTool ex now tn as)) =
      (getTool ex tn = None \<or>
       (\<exists>tool vs r. getTool ex tn = Some tool \<and> Object_values (default_args as) = Inr vs \<and>
          failure_of (apply_to (handler tool) (execution_context_of ex (default_args as)) vs)
            = Some (Unconvertible r)))"
  proof (cases "getTool ex tn")
    case None
    then show ?thesis by (simp add: executeTool_def Let_def raises_outward_def)
  next
    case (Some tool')
    show ?thesis
    proof (cases "Object_values (default_args as)")
      case (Inl e)
      with Some show ?thesis
        by (simp add: executeTool_bad_args raises_outward_def)
    next
      case (Inr vs')
      with Some show ?thesis
        by (simp add: executeTool_outcome completion_of_run_raises)
    qed
  qed
next
  assume "getTool ex tn = None"
  then show "executeTool ex now tn as = (Raises (''Tool '' @ [CHR 0x27] @ tn @ [CHR 0x27] @ '' not found''), [])"
    by (simp add: executeTool_def Let_def)
next
  assume "getTool ex tn = Some tool \<and> Object_values (default_args as) = Inr vs \<and>
    failure_of (apply_to (handler tool) (execution_context_of ex (default_args as)) vs) = Some e \<and>
    error_message e = Inr m"
  then show "\<exists>t. fst (executeTool ex now tn as) =
             Completes \<lparr>success = False, result = None, error = Some m, toolName = tn,
                        executionTime = t\<rparr>"
    using completion_of_run_failure [of _ e m tn] by (simp add: executeTool_outcome)
qed

theorem executeTool_raises_when_witness:
  "getTool example_executor ''missing'' = None \<and>
   executeTool example_executor 0 ''missing'' (JObj [])
     = (Raises (''Tool '' @ [CHR 0x27] @ ''missing'' @ [CHR 0x27] @ '' not found''), []) \<and>
   (\<exists>t. fst (executeTool example_executor 0 ''square'' (JObj [(''side'', JNum (- 1))])) =
          Completes \<lparr>success = False, result = None, error = Some ''Error: Side cannot be negative'',
                     toolName = ''square'', executionTime = t\<rparr>) \<and>
   (\<exists>t. fst (executeTool example_executor 0 ''fetch'' (JObj [(''url'', JStr ''http://localhost/'')])) =
          Completes \<lparr>success = False, result = None, error = Some ''connection refused'',
                     toolName = ''fetch'', executionTime = t\<rparr>) \<and>
   raises_outward (fst (executeTool broken_executor 0 ''broken'' (JObj [])))"
proof -
  from example_executor_registry obtain square fetch where
    missing: "getTool example_executor ''missing'' = None"
    and square: "getTool example_executor ''square'' = Some square" "handler square = fn_square"
    and fetch: "getTool example_executor ''fetch'' = Some fetch" "handler fetch = fn_fetch"
    by blast
  have 1: "executeTool example_executor 0 ''missing'' (JObj [])
     = (Raises (''Tool '' @ [CHR 0x27] @ ''missing'' @ [CHR 0x27] @ '' not found''), [])"
    using executeTool_raises_when [of example_executor 0 "''missing''" "JObj []"] missing
    by blast
  have "Object_values (default_args (JObj [(''side'', JNum (- 1))])) = Inr [JNum (- 1)]"
    "failure_of (apply_to (handler square)
       (execution_context_of example_executor (default_args (JObj [(''side'', JNum (- 1))]))) [JNum (- 1)])
     = Some (Non_error ''Error: Side cannot be negative'')"
    "error_message (Non_error ''Error: Side cannot be negative'') = Inr ''Error: Side cannot be negative''"
    by (simp_all add: Object_values_def default_args_def square(2) fn_square_def failure_of_def
        error_message_def)
  with square(1) have 2: "\<exists>t. fst (executeTool example_executor 0 ''square'' (JObj [(''side'', JNum (- 1))])) =
          Completes \<lparr>success = False, result = None, error = Some ''Error: Side cannot be negative'',
                     toolName = ''square'', executionTime = t\<rparr>"
    using executeTool_raises_when [of example_executor 0 "''square''"
        "JObj [(''side'', JNum (- 1))]" square "[JNum (- 1)]" "Non_error ''Error: Side cannot be negative''"
        "''Error: Side cannot be negative''"]
    by blast
  have "Object_values (default_args (JObj [(''url'', JStr ''http://localhost/'')])) = Inr [JStr ''http://localhost/'']"
    "failure_of (apply_to (handler fetch)
       (execution_context_of example_executor (default_args (JObj [(''url'', JStr ''http://localhost/'')])))
       [JStr ''http://localhost/''])
     = Some (Error_instance ''connection refused'')"
    "error_message (Error_instance ''connection refused'') = Inr ''connection refused''"
    by (simp_all add: Object_values_def default_args_def fetch(2) fn_fetch_def failure_of_def
        error_message_def)
  with fetch(1) have 3: "\<exists>t. fst (executeTool example_executor 0 ''fetch'' (JObj [(''url'', JStr ''http://localhost/'')])) =
          Completes \<lparr>success = False, result = None, error = Some ''connection refused'',
                     toolName = ''fetch'', executionTime = t\<rparr>"
    using executeTool_raises_when [of example_executor 0 "''fetch''"
        "JObj [(''url'', JStr ''http://localhost/'')]" fetch "[JStr ''http://localhost/'']"
        "Error_instance ''connection refused''" "''connection refused''"]
    by blast
  from broken_registry obtain broken where
    broken: "getTool broken_executor ''broken'' = Some broken" "handler broken = fn_broken"
    by blast
  have "Object_values (default_args (JObj [])) = Inr []"
    "failure_of (apply_to (handler broken)
       (execution_context_of broken_executor (default_args (JObj []))) [])
     = Some (Unconvertible (Raised_error ''Cannot convert object to primitive value''))"
    by (simp_all add: Object_values_def default_args_def broken(2) fn_broken_def failure_of_def)
  with broken(1) have 4: "raises_outward (fst (executeTool broken_executor 0 ''broken'' (JObj [])))"
    using executeTool_raises_when [of broken_executor 0 "''broken''" "JObj []"]
    by blast
  from missing 1 2 3 4 show ?thesis
    by blast
qed

text \<open>
  The tool \<open>broken\<close> is in the registry, and its handler throws an object without a
  prototype: \<open>String\<close> raises on it inside the \<open>catch\<close>, and \<open>executeTool\<close> raises.
\<close>

theorem registered_tool_raises_counterexample:
  "\<exists>tool. getTool broken_executor ''broken'' = Some tool \<and>
     fst (executeTool broken_executor 0 ''broken'' (JObj []))
       = Raises ''Cannot convert object to primitive value''"
proof -
  from broken_registry obtain tool where
    t: "getTool broken_executor ''broken'' = Some tool" "handler tool = fn_broken"
    by blast
  have "Object_values (default_args (JObj [])) = Inr []"
    by (simp add: Object_values_def default_args_def)
  from executeTool_outcome [OF t(1) this, of 0] t show ?thesis
    by (simp add: completion_of_run_def fn_broken_def failure_result_def error_message_def)
qed

subsection \<open>The arguments of the handler\<close>

text \<open>
  C2, as amended. For every registered tool and every argument bag, the handler is applied
  once, to the values of the bag in the order of the bag's own keys (\<open>Object.values\<close>); the
  order in which the schema declares the parameters plays no part, and what the call comes to
  is what the handler makes of these values.
\<close>

theorem handler_receives_bag_order:
  "getTool ex tn = Some tool \<Longrightarrow>
     (Handler_apply ws \<in> set (snd (executeTool ex now tn (JObj bag)))) = (ws = map snd bag) \<and>
     fst (executeTool ex now tn (JObj bag)) =
       completion_of_run tn (apply_to (handler tool) (execution_context_of ex (JObj bag)) (map snd bag))"
proof -
  assume t: "getTool ex tn = Some tool"
  have v: "Object_values (JObj bag) = Inr (map snd bag)" "default_args (JObj bag) = JObj bag"
    by (simp_all add: Object_values_def default_args_def)
  then have v': "Object_values (default_args (JObj bag)) = Inr (map snd bag)"
    by simp
  from executeTool_effects [OF t, of now "JObj bag"]
  have "(Handler_apply ws \<in> set (snd (executeTool ex now tn (JObj bag)))) = (ws = map snd bag)"
    by (auto simp: v)
  moreover from executeTool_outcome [OF t v', of now]
  have "fst (executeTool ex now tn (JObj bag)) =
       completion_of_run tn (apply_to (handler tool) (execution_context_of ex (JObj bag)) (map snd bag))"
    by (simp add: v)
  ultimately show ?thesis by simp
qed

theorem handler_receives_bag_order_witness:
  "(\<exists>tool. getTool example_executor ''subtract'' = Some tool) \<and>
   Handler_apply [JNum 1, JNum 10]
     \<in> set (snd (executeTool example_executor 0 ''subtract'' (JObj [(''b'', JNum 1), (''a'', JNum 10)]))) \<and>
   fst (executeTool example_executor 0 ''subtract'' (JObj [(''b'', JNum 1), (''a'', JNum 10)])) =
     Completes \<lparr>success = True, result = Some (JNum (- 9)), error = None, toolName = ''subtract'',
                executionTime = 0\<rparr>"
proof -
  from example_executor_registry obtain tool where
    tool: "getTool example_executor ''subtract'' = Some tool" "handler tool = fn_subtract"
    by blast
  from handler_receives_bag_order [OF tool(1), of "[JNum 1, JNum 10]" 0 "[(''b'', JNum 1), (''a'', JNum 10)]"]
  show ?thesis
    using tool by (simp add: completion_of_run_def fn_subtract_def)
qed

text \<open>
  The schema of \<open>subtract\<close> declares \<open>a\<close> before \<open>b\<close>. Called with the bag
  \<open>{b: 1, a: 10}\<close>, the handler is applied to 1 and 10, not to 10 and 1.
\<close>

lemma subtract_parameters:
  "map_sum id (map pname) (extractParameters (source fn_subtract)) = Inr [''a'', ''b'']"
  by code_simp

lemma subtract_schema:
  "analyzeFunction ''subtract'' fn_subtract = Inr tool \<Longrightarrow>
   map fst (properties (inputSchema tool)) = [''a'', ''b'']"
proof -
  assume "analyzeFunction ''subtract'' fn_subtract = Inr tool"
  then obtain params where p: "extractParameters (source fn_subtract) = Inr params"
    "properties (inputSchema tool) = generateParameterSchema params"
    using analyzeFunction_descriptor by blast
  with subtract_parameters obtain p1 p2 where "params = [p1, p2]" "pname p1 = ''a''" "pname p2 = ''b''"
    by auto
  with p(2) show ?thesis
    by (simp add: generateParameterSchema_def set_property_def array_index_def is_digit_def
        in_range_def)
qed

theorem schema_order_counterexample:
  "\<exists>tool. getTool example_executor ''subtract'' = Some tool \<and>
     map fst (properties (inputSchema tool)) = [''a'', ''b''] \<and>
     schema_order_values tool [(''b'', JNum 1), (''a'', JNum 10)] = [JNum 10, JNum 1] \<and>
     Handler_apply (schema_order_values tool [(''b'', JNum 1), (''a'', JNum 10)])
       \<notin> set (snd (executeTool example_executor 0 ''subtract'' (JObj [(''b'', JNum 1), (''a'', JNum 10)]))) \<and>
     Handler_apply [JNum 1, JNum 10]
       \<in> set (snd (executeTool example_executor 0 ''subtract'' (JObj [(''b'', JNum 1), (''a'', JNum 10)])))"
proof -
  from example_executor_registry obtain tool where
    tool: "getTool example_executor ''subtract'' = Some tool" "handler tool = fn_subtract"
      "analyzeFunction ''subtract'' fn_subtract = Inr tool"
    by blast
  have keys: "map fst (properties (inputSchema tool)) = [''a'', ''b'']"
    using subtract_schema [OF tool(3)] .
  have vals: "schema_order_values tool [(''b'', JNum 1), (''a'', JNum 10)] = [JNum 10, JNum 1]"
    by (simp add: schema_order_values_def keys)
  have "Object_values (default_args (JObj [(''b'', JNum 1), (''a'', JNum 10)])) = Inr [JNum 1, JNum 10]"
    by (simp add: Object_values_def default_args_def)
  with executeTool_effects [OF tool(1), of 0 "JObj [(''b'', JNum 1), (''a'', JNum 10)]"]
  have "Handler_apply [JNum 10, JNum 1]
       \<notin> set (snd (executeTool example_executor 0 ''subtract'' (JObj [(''b'', JNum 1), (''a'', JNum 10)])))"
    "Handler_apply [JNum 1, JNum 10]
       \<in> set (snd (executeTool example_executor 0 ''subtract'' (JObj [(''b'', JNum 1), (''a'', JNum 10)])))"
    by auto
  with tool(1) keys vals show ?thesis
    by simp
qed

subsection \<open>Handlers that outlast the timeout\<close>

text \<open>
  C1. The executor of the example has a timeout of 5000 ms. A call of \<open>readFile\<close>, whose
  promise is fulfilled 10000 ms after the handler returned it, comes back after 10000 ms with
  \<open>success\<close> true; so does a call of \<open>spin\<close>, which keeps the thread for 10000 ms; a
  call of \<open>waitForever\<close> never comes back. None of them ends in \<open>Execution timeout\<close>:
  the timer is cleared as soon as the handler has returned, before it can fire.
\<close>

theorem timeout_does_not_fire:
  "timeout example_executor = 5000 \<and>
   executeTool example_executor 0 ''readFile'' (JObj [(''filePath'', JStr ''notes.txt'')]) =
     (Completes \<lparr>success = True, result = Some (JStr ''contents''), error = None,
                 toolName = ''readFile'', executionTime = 10000\<rparr>,
      [Date_now 0, Set_timeout 5000, Handler_apply [JStr ''notes.txt''], Clear_timeout, Date_now 10000]) \<and>
   executeTool example_executor 0 ''spin'' (JObj []) =
     (Completes \<lparr>success = True, result = Some (JNum 1), error = None,
                 toolName = ''spin'', executionTime = 10000\<rparr>,
      [Date_now 0, Set_timeout 5000, Handler_apply [], Clear_timeout, Date_now 10000]) \<and>
   executeTool example_executor 0 ''waitForever'' (JObj []) =
     (Never_completes, [Date_now 0, Set_timeout 5000, Handler_apply [], Clear_timeout])"
proof -
  from example_executor_registry obtain readFile spin waitForever where
    t: "timeout example_executor = 5000"
    and r: "getTool example_executor ''readFile'' = Some readFile" "handler readFile = fn_readFile"
    and s: "getTool example_executor ''spin'' = Some spin" "handler spin = fn_spin"
    and w: "getTool example_executor ''waitForever'' = Some waitForever" "handler waitForever = fn_waitForever"
    by blast
  have 1: "executeTool example_executor 0 ''readFile'' (JObj [(''filePath'', JStr ''notes.txt'')]) =
     (Completes \<lparr>success = True, result = Some (JStr ''contents''), error = None,
                 toolName = ''readFile'', executionTime = 10000\<rparr>,
      [Date_now 0, Set_timeout 5000, Handler_apply [JStr ''notes.txt''], Clear_timeout, Date_now 10000])"
    by (simp add: executeTool_def default_args_def r t promise_executor_def Let_def setTimeout_def
        clearTimeout_def Object_values_def fn_readFile_def await_promise_def settle_def
        execution_result_of_def)
  have 2: "executeTool example_executor 0 ''spin'' (JObj []) =
     (Completes \<lparr>success = True, result = Some (JNum 1), error = None,
                 toolName = ''spin'', executionTime = 10000\<rparr>,
      [Date_now 0, Set_timeout 5000, Handler_apply [], Clear_timeout, Date_now 10000])"
    by (simp add: executeTool_def default_args_def s t promise_executor_def Let_def setTimeout_def
        clearTimeout_def Object_values_def fn_spin_def await_promise_def settle_def
        execution_result_of_def)
  have 3: "executeTool example_executor 0 ''waitForever'' (JObj []) =
     (Never_completes, [Date_now 0, Set_timeout 5000, Handler_apply [], Clear_timeout])"
    by (simp add: executeTool_def default_args_def w t promise_executor_def Let_def setTimeout_def
        clearTimeout_def Object_values_def fn_waitForever_def await_promise_def settle_def
        execution_result_of_def)
  from t 1 2 3 show ?thesis
    by simp
qed

end
